theory Spec2Isabelle
  imports Complex_Main "HOL-Library.Sublist" "HOL-Library.Log_Nat"
begin

text \<open>
  The task model of the task-management server (\<open>class Task\<close> in \<open>models/Task.js\<close>)
  and the seeding code of \<open>utils/database.js\<close>: the two scoring methods, \<open>create\<close>,
  \<open>findById\<close> and \<open>update\<close> over the table \<open>tasks\<close>, the query \<open>findAll\<close> builds, and
  \<open>getStatistics\<close>. The clock, \<open>uuidv4()\<close> and the store are passed explicitly; what the
  libraries do (\<open>moment\<close>'s \<open>diff\<close>, SQLite's constraints, column affinity, \<open>LIKE\<close> and
  aggregates, JavaScript's property lookup and numbers) is written out where the code
  relies on it. What a library reads out of a text by tables of its own (the instant a
  date string denotes, the upper-case form of a string) is carried with the text.
\<close>

section \<open>JavaScript values met by the scoring code\<close>

text \<open>
  The two scoring methods of \<open>Task\<close> read a table written as an object literal,
  \<^verbatim>\<open>statusPercentages[this.status] || 0\<close> and \<^verbatim>\<open>priorityWeights[this.priority] || 25\<close>.
  A property read on an object literal finds the literal's own keys first and then the
  members every object inherits from \<open>Object.prototype\<close>; only a key found in neither
  place reads as \<open>undefined\<close>. The values that can come out of these expressions are
  therefore numbers, \<open>undefined\<close>, \<open>NaN\<close>, an inherited member (a built-in function,
  or the prototype object itself for \<open>__proto__\<close>), and the text made when \<open>+\<close> joins
  a number with such a member.
\<close>

datatype jsval =
    Undefined
  | Number int
  | NaN
  | Builtin string
  | Text

text \<open>The names \<open>Object.prototype\<close> defines (ECMAScript, with its Annex B accessors).\<close>

definition Object_prototype :: "string list" where
  "Object_prototype =
     [''constructor'', ''hasOwnProperty'', ''isPrototypeOf'', ''propertyIsEnumerable'',
      ''toLocaleString'', ''toString'', ''valueOf'', ''__proto__'',
      ''__defineGetter__'', ''__defineSetter__'', ''__lookupGetter__'', ''__lookupSetter__'']"

text \<open>\<^verbatim>\<open>obj[key]\<close> for an object literal \<open>obj\<close> whose own values are numbers.\<close>

definition get_property :: "(string \<times> int) list \<Rightarrow> string \<Rightarrow> jsval" where
  "get_property obj key =
     (case map_of obj key of
        Some n \<Rightarrow> Number n
      | None \<Rightarrow> if key \<in> set Object_prototype then Builtin key else Undefined)"

fun truthy :: "jsval \<Rightarrow> bool" where
  "truthy Undefined = False"
| "truthy (Number n) = (n \<noteq> 0)"
| "truthy NaN = False"
| "truthy (Builtin k) = True"
| "truthy Text = True"

text \<open>\<^verbatim>\<open>a || b\<close>\<close>

definition js_or :: "jsval \<Rightarrow> jsval \<Rightarrow> jsval" where
  "js_or a b = (if truthy a then a else b)"

text \<open>
  \<^verbatim>\<open>a + b\<close>: when an operand is an object or a string the operands are joined as
  strings, and the result holds the member's text, which is no numeral; otherwise the
  operands are added as numbers, \<open>undefined\<close> counting as \<open>NaN\<close>.
\<close>

fun js_plus :: "jsval \<Rightarrow> jsval \<Rightarrow> jsval" where
  "js_plus (Number a) (Number b) = Number (a + b)"
| "js_plus (Builtin k) _ = Text"
| "js_plus _ (Builtin k) = Text"
| "js_plus Text _ = Text"
| "js_plus _ Text = Text"
| "js_plus _ _ = NaN"

text \<open>\<^verbatim>\<open>Math.min(x, 100)\<close>: the argument is converted to a number first.\<close>

fun Math_min_100 :: "jsval \<Rightarrow> jsval" where
  "Math_min_100 (Number n) = Number (min n 100)"
| "Math_min_100 _ = NaN"

section \<open>The Task object\<close>

subsection \<open>Due dates\<close>

text \<open>
  A due date is a string (in a request body, in the sample tasks, in a text column) or
  a number (in a column that holds a number). A string carries what the libraries read
  out of it: the instant \<^verbatim>\<open>moment(s)\<close> denotes on the server, the instant
  \<^verbatim>\<open>new Date(s)\<close> denotes (each in milliseconds since the epoch, \<open>None\<close> for an
  invalid date), and the number SQLite reads the text as when the text is a well-formed
  numeric literal (\<open>None\<close> when it is not). So
  \<^verbatim>\<open>'2099-12-31T00:00:00.000Z'\<close> is
  \<open>DateString ''2099-12-31T00:00:00.000Z'' (Some 4102358400000) (Some 4102358400000) None\<close>.
\<close>

datatype date_value =
    DateString string "int option" "int option" "rat option"
  | DateNumber rat

text \<open>The truthiness of a due date: the empty string and 0 are falsy.\<close>

fun truthy_date :: "date_value \<Rightarrow> bool" where
  "truthy_date (DateString s m d n) = (s \<noteq> [])"
| "truthy_date (DateNumber x) = (x \<noteq> 0)"

text \<open>
  \<^verbatim>\<open>new Date(x)\<close> for a number \<open>x\<close> (\<open>TimeClip\<close> of ECMAScript): the number cut to an
  integer, and an invalid date beyond \<open>8.64e15\<close> milliseconds. \<^verbatim>\<open>moment(x)\<close> is
  \<^verbatim>\<open>new Date(x)\<close> for a number.
\<close>

definition TimeClip :: "rat \<Rightarrow> int option" where
  "TimeClip x =
     (if 8640000000000000 < \<bar>x\<bar> then None
      else Some (if x < 0 then \<lceil>x\<rceil> else \<lfloor>x\<rfloor>))"

text \<open>\<^verbatim>\<open>moment(v).valueOf()\<close> and \<^verbatim>\<open>new Date(v).getTime()\<close>, \<open>None\<close> for \<open>NaN\<close>.\<close>

fun moment_valueOf :: "date_value \<Rightarrow> int option" where
  "moment_valueOf (DateString s m d n) = m"
| "moment_valueOf (DateNumber x) = TimeClip x"

fun Date_getTime :: "date_value \<Rightarrow> int option" where
  "Date_getTime (DateString s m d n) = d"
| "Date_getTime (DateNumber x) = TimeClip x"

subsection \<open>The clock\<close>

text \<open>
  What a call reads of the time: \<open>Date_now\<close> is the instant \<^verbatim>\<open>moment()\<close> and
  \<^verbatim>\<open>new Date()\<close> return during the call, \<open>store_now\<close> the instant at which the store
  runs the call's statement (both in milliseconds since the epoch), and \<open>utcOffset\<close> the
  offset of the server's zone from UTC, in minutes, at a given instant.
\<close>

record clock =
  Date_now :: int
  store_now :: int
  utcOffset :: "int \<Rightarrow> int"

subsection \<open>The fields\<close>

text \<open>
  The fields of \<open>class Task\<close>. The times \<open>created_at\<close> and \<open>updated_at\<close> are
  instants in milliseconds since the epoch; a field that may be \<open>undefined\<close> or
  \<open>NULL\<close> is an option. \<open>is_urgent\<close> is the truth value the code reads the field as
  (\<open>true\<close> or \<open>false\<close> in a request, 1 or 0 in a row). \<open>status\<close> and \<open>priority\<close>
  are any strings. The field \<open>id\<close> is written \<open>task_id\<close>.
\<close>

record task =
  task_id :: string
  title :: "string option"
  description :: "string option"
  status :: string
  priority :: string
  is_urgent :: bool
  due_date :: "date_value option"
  completion_percentage :: jsval
  priority_score :: jsval
  user_id :: "string option"
  created_at :: "int option"
  updated_at :: "int option"

subsection \<open>calculateCompletionPercentage\<close>

definition statusPercentages :: "(string \<times> int) list" where
  "statusPercentages =
     [(''TODO'', 0), (''IN_PROGRESS'', 50), (''COMPLETED'', 100), (''CANCELLED'', 0)]"

definition calculateCompletionPercentage :: "task \<Rightarrow> jsval" where
  "calculateCompletionPercentage this =
     js_or (get_property statusPercentages (status this)) (Number 0)"

subsection \<open>calculatePriorityScore\<close>

definition priorityWeights :: "(string \<times> int) list" where
  "priorityWeights = [(''LOW'', 10), (''MEDIUM'', 25), (''HIGH'', 40), (''URGENT'', 60)]"

text \<open>
  \<^verbatim>\<open>dueDate.diff(now, 'days')\<close> of the moment library, for a valid \<open>dueDate\<close>, both
  moments in local mode: with
  \<^verbatim>\<open>zoneDelta = (that.utcOffset() - this.utcOffset()) * 6e4\<close>, where \<open>this\<close> is
  \<open>dueDate\<close> and \<open>that\<close> is \<open>now\<close>, the result is
  \<^verbatim>\<open>absFloor((this - that - zoneDelta) / 864e5)\<close>; \<open>absFloor\<close> rounds toward zero
  (\<open>Math.ceil\<close> below zero, \<open>Math.floor\<close> otherwise).
\<close>

definition absFloor :: "rat \<Rightarrow> int" where
  "absFloor number = (if number < 0 then \<lceil>number\<rceil> else \<lfloor>number\<rfloor>)"

definition moment_diff_days :: "int \<Rightarrow> clock \<Rightarrow> int" where
  "moment_diff_days dueDate now =
     (let zoneDelta = (utcOffset now (Date_now now) - utcOffset now dueDate) * 60000
      in absFloor (of_int (dueDate - Date_now now - zoneDelta) / 86400000))"

text \<open>
  \<^verbatim>\<open>moment(this.due_date).diff(moment(), 'days')\<close>: \<open>diff\<close> returns \<open>NaN\<close> (\<open>None\<close>)
  for an invalid date.
\<close>

definition Task_daysUntilDue :: "clock \<Rightarrow> date_value \<Rightarrow> int option" where
  "Task_daysUntilDue now v =
     (case moment_valueOf v of
        None \<Rightarrow> None
      | Some dueDate \<Rightarrow> Some (moment_diff_days dueDate now))"

text \<open>The chain of comparisons both scoring paths apply to \<open>daysUntilDue\<close>.\<close>

definition due_date_urgency :: "int \<Rightarrow> int" where
  "due_date_urgency daysUntilDue =
     (if daysUntilDue < 0 then 40
      else if daysUntilDue \<le> 1 then 35
      else if daysUntilDue \<le> 3 then 25
      else if daysUntilDue \<le> 7 then 15
      else 5)"

text \<open>
  The same chain on a day count that may be \<open>NaN\<close>: every comparison with \<open>NaN\<close> is
  false, which leaves the last branch.
\<close>

definition due_date_points :: "int option \<Rightarrow> int" where
  "due_date_points daysUntilDue =
     (case daysUntilDue of None \<Rightarrow> 5 | Some n \<Rightarrow> due_date_urgency n)"

definition calculatePriorityScore :: "clock \<Rightarrow> task \<Rightarrow> jsval" where
  "calculatePriorityScore now this =
     (let score0 = js_plus (Number 0)
                     (js_or (get_property priorityWeights (priority this)) (Number 25));
          score1 = (if is_urgent this then js_plus score0 (Number 20) else score0);
          score2 = (case due_date this of
                      None \<Rightarrow> score1
                    | Some v \<Rightarrow>
                        if truthy_date v
                        then js_plus score1 (Number (due_date_points (Task_daysUntilDue now v)))
                        else score1)
      in Math_min_100 score2)"

subsection \<open>The scoring of the sample tasks in initializeDatabase\<close>

text \<open>
  \<open>initializeDatabase\<close> computes the two derived fields of each sample task itself,
  before it inserts the task. Its day count is
  \<^verbatim>\<open>Math.ceil((dueDate - now) / (1000 * 60 * 60 * 24))\<close> with
  \<^verbatim>\<open>now = new Date()\<close> and \<^verbatim>\<open>dueDate = new Date(task.due_date)\<close>; it is \<open>NaN\<close>
  (\<open>None\<close>) for an invalid date.
\<close>

definition seed_completion_percentage :: "task \<Rightarrow> jsval" where
  "seed_completion_percentage t =
     js_or (get_property statusPercentages (status t)) (Number 0)"

definition seed_daysUntilDue :: "clock \<Rightarrow> date_value \<Rightarrow> int option" where
  "seed_daysUntilDue now v =
     (case Date_getTime v of
        None \<Rightarrow> None
      | Some dueDate \<Rightarrow>
          Some \<lceil>(of_int (dueDate - Date_now now) :: rat) / (1000 * 60 * 60 * 24)\<rceil>)"

definition seed_priority_score :: "clock \<Rightarrow> task \<Rightarrow> jsval" where
  "seed_priority_score now t =
     (let score0 = js_plus (Number 0)
                     (js_or (get_property priorityWeights (priority t)) (Number 25));
          score1 = (if is_urgent t then js_plus score0 (Number 20) else score0);
          score2 = (case due_date t of
                      None \<Rightarrow> score1
                    | Some v \<Rightarrow>
                        if truthy_date v
                        then js_plus score1 (Number (due_date_points (seed_daysUntilDue now v)))
                        else score1)
      in Math_min_100 score2)"

subsection \<open>The constructor\<close>

text \<open>
  A plain object handed to the constructor, to \<open>Task.create\<close> or to \<open>Task.update\<close>:
  a request body or a row read from the store. Every key may be absent (\<open>None\<close>).
\<close>

record task_data =
  data_id :: "string option"
  data_title :: "string option"
  data_description :: "string option"
  data_status :: "string option"
  data_priority :: "string option"
  data_is_urgent :: "bool option"
  data_due_date :: "date_value option"
  data_completion_percentage :: "jsval option"
  data_priority_score :: "jsval option"
  data_user_id :: "string option"
  data_created_at :: "int option"
  data_updated_at :: "int option"

text \<open>\<^verbatim>\<open>s || d\<close> for a string that may be absent: absent and empty strings are falsy.\<close>

definition truthy_string :: "string option \<Rightarrow> bool" where
  "truthy_string s = (case s of None \<Rightarrow> False | Some v \<Rightarrow> v \<noteq> [])"

definition string_or :: "string option \<Rightarrow> string \<Rightarrow> string" where
  "string_or s d = (case s of None \<Rightarrow> d | Some v \<Rightarrow> if v \<noteq> [] then v else d)"

definition jsval_of :: "jsval option \<Rightarrow> jsval" where
  "jsval_of v = (case v of None \<Rightarrow> Undefined | Some x \<Rightarrow> x)"

text \<open>
  \<^verbatim>\<open>new Task(data)\<close>. The argument \<open>uuid\<close> is what \<open>uuidv4()\<close> returns when the
  constructor calls it.
\<close>

definition Task :: "string \<Rightarrow> task_data \<Rightarrow> task" where
  "Task uuid data =
     \<lparr> task_id = string_or (data_id data) uuid,
       title = data_title data,
       description = data_description data,
       status = string_or (data_status data) ''TODO'',
       priority = string_or (data_priority data) ''MEDIUM'',
       is_urgent = (case data_is_urgent data of None \<Rightarrow> False | Some b \<Rightarrow> b),
       due_date = data_due_date data,
       completion_percentage = js_or (jsval_of (data_completion_percentage data)) (Number 0),
       priority_score = js_or (jsval_of (data_priority_score data)) (Number 0),
       user_id = data_user_id data,
       created_at = data_created_at data,
       updated_at = data_updated_at data \<rparr>"

text \<open>\<^verbatim>\<open>Object.assign(task, updateData)\<close>: every key present in the payload is copied.\<close>

definition Object_assign :: "task \<Rightarrow> task_data \<Rightarrow> task" where
  "Object_assign t d =
     \<lparr> task_id = (case data_id d of None \<Rightarrow> task_id t | Some v \<Rightarrow> v),
       title = (case data_title d of None \<Rightarrow> title t | Some v \<Rightarrow> Some v),
       description = (case data_description d of None \<Rightarrow> description t | Some v \<Rightarrow> Some v),
       status = (case data_status d of None \<Rightarrow> status t | Some v \<Rightarrow> v),
       priority = (case data_priority d of None \<Rightarrow> priority t | Some v \<Rightarrow> v),
       is_urgent = (case data_is_urgent d of None \<Rightarrow> is_urgent t | Some v \<Rightarrow> v),
       due_date = (case data_due_date d of None \<Rightarrow> due_date t | Some v \<Rightarrow> Some v),
       completion_percentage =
         (case data_completion_percentage d of None \<Rightarrow> completion_percentage t | Some v \<Rightarrow> v),
       priority_score = (case data_priority_score d of None \<Rightarrow> priority_score t | Some v \<Rightarrow> v),
       user_id = (case data_user_id d of None \<Rightarrow> user_id t | Some v \<Rightarrow> Some v),
       created_at = (case data_created_at d of None \<Rightarrow> created_at t | Some v \<Rightarrow> Some v),
       updated_at = (case data_updated_at d of None \<Rightarrow> updated_at t | Some v \<Rightarrow> Some v) \<rparr>"

section \<open>The store\<close>

text \<open>
  The table \<open>tasks\<close> of \<open>utils/database.js\<close> is a list of rows, a row holding the
  columns of a task. The table declares \<open>title\<close> and \<open>user_id\<close> as \<open>NOT NULL\<close>,
  \<open>id\<close> as the primary key, and a \<open>CHECK\<close> on \<open>status\<close> and on \<open>priority\<close>;
  \<open>created_at\<close> and \<open>updated_at\<close> default to \<open>CURRENT_TIMESTAMP\<close>. A statement
  that breaks a constraint is rejected, and \<open>database.run\<close> rejects with the error.
  (The foreign key to \<open>users\<close> is declared but never switched on, so it is left out.)
\<close>

type_synonym database = "task list"

datatype error = Error string | TypeError | SQLITE_CONSTRAINT

definition check_constraints :: "task \<Rightarrow> bool" where
  "check_constraints row =
     (title row \<noteq> None \<and> user_id row \<noteq> None
      \<and> status row \<in> set [''TODO'', ''IN_PROGRESS'', ''COMPLETED'', ''CANCELLED'']
      \<and> priority row \<in> set [''LOW'', ''MEDIUM'', ''HIGH'', ''URGENT''])"

text \<open>
  The column is declared \<^verbatim>\<open>due_date DATETIME\<close>, which gives it NUMERIC affinity: a
  text that is a well-formed numeric literal is converted to the number it denotes when
  it is stored, and the row then holds that number; any other text, and every number,
  is stored as it is.
\<close>

fun numeric_affinity :: "date_value \<Rightarrow> date_value" where
  "numeric_affinity (DateString s m d (Some x)) = DateNumber x"
| "numeric_affinity (DateString s m d None) = DateString s m d None"
| "numeric_affinity (DateNumber x) = DateNumber x"

definition stored_due_date :: "date_value option \<Rightarrow> date_value option" where
  "stored_due_date v = (case v of None \<Rightarrow> None | Some x \<Rightarrow> Some (numeric_affinity x))"

text \<open>
  \<open>CURRENT_TIMESTAMP\<close>: the time at which the store runs the statement, in whole
  seconds.
\<close>

definition CURRENT_TIMESTAMP :: "clock \<Rightarrow> int" where
  "CURRENT_TIMESTAMP now = 1000 * (store_now now div 1000)"

text \<open>
  \<^verbatim>\<open>INSERT INTO tasks (id, title, description, status, priority, is_urgent, due_date,
  completion_percentage, priority_score, user_id) VALUES (...)\<close> with the fields of \<open>t\<close>.
\<close>

definition run_insert :: "clock \<Rightarrow> task \<Rightarrow> database \<Rightarrow> error + database" where
  "run_insert now t db =
     (let row = t\<lparr> due_date := stored_due_date (due_date t),
                   created_at := Some (CURRENT_TIMESTAMP now),
                   updated_at := Some (CURRENT_TIMESTAMP now) \<rparr>
      in if check_constraints row \<and> task_id t \<notin> set (map task_id db)
         then Inr (db @ [row])
         else Inl SQLITE_CONSTRAINT)"

text \<open>
  \<^verbatim>\<open>UPDATE tasks SET title = ?, description = ?, status = ?, priority = ?, is_urgent = ?,
  due_date = ?, completion_percentage = ?, priority_score = ?, updated_at = CURRENT_TIMESTAMP
  WHERE id = ?\<close> with the fields of \<open>t\<close> and the id \<open>i\<close>.
\<close>

definition set_columns :: "clock \<Rightarrow> task \<Rightarrow> task \<Rightarrow> task" where
  "set_columns now t row =
     row\<lparr> title := title t, description := description t, status := status t,
          priority := priority t, is_urgent := is_urgent t,
          due_date := stored_due_date (due_date t),
          completion_percentage := completion_percentage t,
          priority_score := priority_score t,
          updated_at := Some (CURRENT_TIMESTAMP now) \<rparr>"

definition run_update :: "clock \<Rightarrow> task \<Rightarrow> string \<Rightarrow> database \<Rightarrow> error + database" where
  "run_update now t i db =
     (if list_all check_constraints (map (set_columns now t) (filter (\<lambda>row. task_id row = i) db))
      then Inr (map (\<lambda>row. if task_id row = i then set_columns now t row else row) db)
      else Inl SQLITE_CONSTRAINT)"

text \<open>\<^verbatim>\<open>SELECT * FROM tasks WHERE id = ?\<close> through \<open>database.get\<close>: the first row found.\<close>

definition get_by_id :: "database \<Rightarrow> string \<Rightarrow> task option" where
  "get_by_id db i = find (\<lambda>row. task_id row = i) db"

text \<open>A row as the plain object \<open>database.get\<close> returns: every column is a key.\<close>

definition row_data :: "task \<Rightarrow> task_data" where
  "row_data row =
     \<lparr> data_id = Some (task_id row),
       data_title = title row,
       data_description = description row,
       data_status = Some (status row),
       data_priority = Some (priority row),
       data_is_urgent = Some (is_urgent row),
       data_due_date = due_date row,
       data_completion_percentage = Some (completion_percentage row),
       data_priority_score = Some (priority_score row),
       data_user_id = user_id row,
       data_created_at = created_at row,
       data_updated_at = updated_at row \<rparr>"

section \<open>Task.create, Task.findById, Task.update\<close>

text \<open>
  Each operation takes the clock \<open>now\<close> of its call and the store, and returns the
  error thrown or the new store with the value returned.
\<close>

definition findById :: "string \<Rightarrow> database \<Rightarrow> string \<Rightarrow> task option" where
  "findById uuid db i =
     (case get_by_id db i of
        None \<Rightarrow> None
      | Some taskData \<Rightarrow> Some (Task uuid (row_data taskData)))"

definition create :: "string \<Rightarrow> clock \<Rightarrow> database \<Rightarrow> task_data \<Rightarrow> error + (database \<times> task)" where
  "create uuid now db taskData =
     (if truthy_string (data_title taskData) \<and> truthy_string (data_user_id taskData)
      then
        (let task0 = Task uuid taskData;
             task1 = task0\<lparr>completion_percentage := calculateCompletionPercentage task0\<rparr>;
             task2 = task1\<lparr>priority_score := calculatePriorityScore now task1\<rparr>
         in case run_insert now task2 db of
              Inl e \<Rightarrow> Inl e
            | Inr db' \<Rightarrow> Inr (db', task2))
      else Inl (Error ''Title and user_id are required''))"

definition update ::
  "string \<Rightarrow> clock \<Rightarrow> database \<Rightarrow> string \<Rightarrow> task_data \<Rightarrow> error + (database \<times> task option)" where
  "update uuid now db i updateData =
     (case findById uuid db i of
        None \<Rightarrow> Inl (Error ''Task not found'')
      | Some task0 \<Rightarrow>
          (let task1 = Object_assign task0 updateData;
               task2 = task1\<lparr>completion_percentage := calculateCompletionPercentage task1\<rparr>;
               task3 = task2\<lparr>priority_score := calculatePriorityScore now task2\<rparr>
           in case run_update now task3 i db of
                Inl e \<Rightarrow> Inl e
              | Inr db' \<Rightarrow> Inr (db', findById uuid db' i)))"

section \<open>Task.findAll\<close>

text \<open>
  The options object. \<open>sort_by\<close> and \<open>sort_order\<close> are read from the query string
  unconverted, so they may hold any value; the other keys are taken at the type the
  route passes them. A string \<open>s\<close> carries what \<^verbatim>\<open>s.toUpperCase()\<close> returns, which
  the case tables of Unicode fix: \<^verbatim>\<open>'asc'\<close> is \<open>AStr ''asc'' ''ASC''\<close>.
\<close>

datatype jsarg = ANull | ABool bool | ANum int | AStr string string | AArr "string list"

record options =
  opt_user_id :: "string option"
  opt_page :: "int option"
  opt_limit :: "int option"
  opt_status :: "string option"
  opt_priority :: "string option"
  opt_is_urgent :: "bool option"
  opt_search :: "string option"
  opt_sort_by :: "jsarg option"
  opt_sort_order :: "jsarg option"

text \<open>
  One entry of \<open>whereConditions\<close> with the parameters pushed for it:
  \<^verbatim>\<open>'user_id = ?'\<close>, \<^verbatim>\<open>'status = ?'\<close>, \<^verbatim>\<open>'priority = ?'\<close>, \<^verbatim>\<open>'is_urgent = ?'\<close> and
  \<^verbatim>\<open>'(title LIKE ? OR description LIKE ?)'\<close>.
\<close>

datatype condition =
    user_id_eq string
  | status_eq string
  | priority_eq string
  | is_urgent_eq int
  | title_or_description_like string string

definition user_id_condition :: "options \<Rightarrow> condition list" where
  "user_id_condition options =
     (case opt_user_id options of
        None \<Rightarrow> []
      | Some u \<Rightarrow> if u \<noteq> [] then [user_id_eq u] else [])"

definition status_condition :: "options \<Rightarrow> condition list" where
  "status_condition options =
     (case opt_status options of
        None \<Rightarrow> []
      | Some s \<Rightarrow> if s \<noteq> [] then [status_eq s] else [])"

definition priority_condition :: "options \<Rightarrow> condition list" where
  "priority_condition options =
     (case opt_priority options of
        None \<Rightarrow> []
      | Some p \<Rightarrow> if p \<noteq> [] then [priority_eq p] else [])"

definition is_urgent_condition :: "options \<Rightarrow> condition list" where
  "is_urgent_condition options =
     (case opt_is_urgent options of
        None \<Rightarrow> []
      | Some urgent \<Rightarrow> [is_urgent_eq (if urgent then 1 else 0)])"

definition search_condition :: "options \<Rightarrow> condition list" where
  "search_condition options =
     (case opt_search options of
        None \<Rightarrow> []
      | Some s \<Rightarrow>
          if s \<noteq> [] then [title_or_description_like (''%'' @ s @ ''%'') (''%'' @ s @ ''%'')]
          else [])"

text \<open>The five \<open>if\<close> blocks that fill \<open>whereConditions\<close>, in the order of the source.\<close>

definition whereConditions :: "options \<Rightarrow> condition list" where
  "whereConditions options =
     user_id_condition options @ status_condition options @ priority_condition options
     @ is_urgent_condition options @ search_condition options"

definition allowedSortFields :: "string list" where
  "allowedSortFields =
     [''title'', ''status'', ''priority'', ''due_date'', ''created_at'', ''updated_at'',
      ''completion_percentage'', ''priority_score'']"

definition allowedSortOrders :: "string list" where
  "allowedSortOrders = [''ASC'', ''DESC'']"

text \<open>
  \<^verbatim>\<open>allowedSortFields.includes(sort_by) ? sort_by : 'created_at'\<close>, the default
  \<open>'created_at'\<close> standing for an absent key. \<open>includes\<close> compares with strict equality,
  so a value that is no string is never found.
\<close>

definition validSortBy :: "options \<Rightarrow> string" where
  "validSortBy options =
     (case opt_sort_by options of
        None \<Rightarrow> ''created_at''
      | Some (AStr sort_by upper) \<Rightarrow>
          if sort_by \<in> set allowedSortFields then sort_by else ''created_at''
      | Some other \<Rightarrow> ''created_at'')"

text \<open>
  \<^verbatim>\<open>allowedSortOrders.includes(sort_order.toUpperCase()) ? sort_order.toUpperCase() : 'DESC'\<close>,
  the default \<open>'DESC'\<close> standing for an absent key. Only a string has the method
  \<open>toUpperCase\<close>: on any other value the call throws a \<open>TypeError\<close>.
\<close>

definition validSortOrder :: "options \<Rightarrow> error + string" where
  "validSortOrder options =
     (case opt_sort_order options of
        None \<Rightarrow> Inr ''DESC''
      | Some (AStr sort_order upper) \<Rightarrow>
          Inr (if upper \<in> set allowedSortOrders then upper else ''DESC'')
      | Some other \<Rightarrow> Inl TypeError)"

text \<open>
  What \<open>findAll\<close> hands to the store (the conditions, the \<open>ORDER BY\<close> pair, \<open>LIMIT\<close>
  and \<open>OFFSET\<close>) and the \<open>sorting\<close> object it returns. The page of rows the store
  answers with, and the \<open>pagination\<close> and \<open>filters\<close> objects that echo the options, are
  left out; of the store's work only the \<open>WHERE\<close> clause is modelled, below.
\<close>

record query =
  query_where :: "condition list"
  query_order_by :: "string \<times> string"
  query_limit :: int
  query_offset :: int
  sorting :: "string \<times> string"

definition findAll :: "options \<Rightarrow> error + query" where
  "findAll options =
     (case validSortOrder options of
        Inl e \<Rightarrow> Inl e
      | Inr sort_order \<Rightarrow>
          (let page = (case opt_page options of None \<Rightarrow> 1 | Some p \<Rightarrow> p);
               limit = (case opt_limit options of None \<Rightarrow> 10 | Some l \<Rightarrow> l)
           in Inr \<lparr> query_where = whereConditions options,
                    query_order_by = (validSortBy options, sort_order),
                    query_limit = limit,
                    query_offset = (page - 1) * limit,
                    sorting = (validSortBy options, sort_order) \<rparr>))"

subsection \<open>How the store evaluates a condition\<close>

text \<open>
  A text of the store is the sequence of the bytes of its UTF-8 encoding (with no NUL
  among them), as the driver binds a JavaScript string. A character is one byte below
  \<open>0x80\<close>, or a lead byte from \<open>0xC0\<close> on with the continuation bytes (\<open>0x80\<close> to
  \<open>0xBF\<close>) that follow it.
\<close>

definition continuation_byte :: "char \<Rightarrow> bool" where
  "continuation_byte c = (128 \<le> (of_char c :: nat) \<and> (of_char c :: nat) < 192)"

definition lead_byte :: "char \<Rightarrow> bool" where
  "lead_byte c = (192 \<le> (of_char c :: nat))"

text \<open>SQLite folds the case of the letters of ASCII only.\<close>

definition upper_char :: "char \<Rightarrow> char" where
  "upper_char c =
     (case map_of (zip ''abcdefghijklmnopqrstuvwxyz'' ''ABCDEFGHIJKLMNOPQRSTUVWXYZ'') c of
        None \<Rightarrow> c
      | Some u \<Rightarrow> u)"


fun like :: "string \<Rightarrow> string \<Rightarrow> bool" where
  "like [] [] = True"
| "like [] (c # cs) = False"
| "like (p # ps) [] = (p = CHR ''%'' \<and> like ps [])"
| "like (p # ps) (c # cs) =
     (if p = CHR ''%'' then like ps (c # cs) \<or> like (p # ps) cs
      else if p = CHR ''_''
        then \<not> continuation_byte c
             \<and> like ps (if lead_byte c then dropWhile continuation_byte cs else cs)
      else upper_char p = upper_char c \<and> like ps cs)"




section \<open>Task.getStatistics\<close>

subsection \<open>Numbers\<close>

text \<open>
  A JavaScript number is an IEEE 754 double; a finite double is modelled by the rational
  it denotes. An arithmetic operation returns its exact result rounded to the nearest
  double, a tie going to the even significand: with \<open>2 ^ e \<le> \<bar>x\<bar> < 2 ^ (e + 1)\<close>
  the doubles around \<open>x\<close> are the multiples of \<open>2 ^ (e - 52)\<close>. (Overflow and
  subnormal numbers are out of reach of the values computed here.)
\<close>

definition round_half_even :: "rat \<Rightarrow> int" where
  "round_half_even x =
     (let f = \<lfloor>x\<rfloor>; r = x - of_int f
      in if r < 1 / 2 then f else if 1 / 2 < r then f + 1 else if even f then f else f + 1)"

definition exponent :: "rat \<Rightarrow> int" where
  "exponent x =
     (let k = bitlen (fst (quotient_of \<bar>x\<bar>)) - bitlen (snd (quotient_of \<bar>x\<bar>))
      in if 2 powi k \<le> \<bar>x\<bar> then k else k - 1)"

definition to_double :: "rat \<Rightarrow> rat" where
  "to_double x =
     (if x = 0 then 0
      else of_int (round_half_even (x / 2 powi (exponent x - 52))) * 2 powi (exponent x - 52))"

text \<open>\<^verbatim>\<open>a / b\<close> and \<^verbatim>\<open>a * b\<close> on numbers.\<close>

definition js_divide :: "rat \<Rightarrow> rat \<Rightarrow> rat" where
  "js_divide a b = to_double (a / b)"

definition js_times :: "rat \<Rightarrow> rat \<Rightarrow> rat" where
  "js_times a b = to_double (a * b)"

text \<open>\<^verbatim>\<open>Math.round(x)\<close>: the nearest integer, a tie going up.\<close>

definition Math_round :: "rat \<Rightarrow> int" where
  "Math_round x = \<lfloor>x + 1 / 2\<rfloor>"

subsection \<open>The aggregates of the query\<close>

text \<open>
  \<^verbatim>\<open>SUM(CASE WHEN c THEN 1 ELSE 0 END)\<close> and \<^verbatim>\<open>AVG(x)\<close> are \<open>NULL\<close> over no rows.
  \<open>AVG\<close> divides the sum of the values by their number in double precision; the sums
  of the integers the two scoring methods store are exact. A derived column holds a number
  in every row a write has stored, since the \<open>CHECK\<close> constraints admit only the keys of
  the two tables; any other value is read as \<open>NULL\<close>.
\<close>

definition sql_sum_case :: "(task \<Rightarrow> bool) \<Rightarrow> task list \<Rightarrow> int option" where
  "sql_sum_case c rows = (if rows = [] then None else Some (int (length (filter c rows))))"

definition sql_number :: "jsval \<Rightarrow> rat option" where
  "sql_number v = (case v of Number n \<Rightarrow> Some (of_int n) | _ \<Rightarrow> None)"

definition sql_avg :: "(task \<Rightarrow> jsval) \<Rightarrow> task list \<Rightarrow> rat option" where
  "sql_avg x rows =
     (let xs = List.map_filter (\<lambda>row. sql_number (x row)) rows
      in if xs = [] then None else Some (js_divide (sum_list xs) (of_nat (length xs))))"

text \<open>\<^verbatim>\<open>x || 0\<close> for a number that may be \<open>NULL\<close>.\<close>

definition int_or_0 :: "int option \<Rightarrow> int" where
  "int_or_0 x = (case x of None \<Rightarrow> 0 | Some n \<Rightarrow> n)"

definition rat_or_0 :: "rat option \<Rightarrow> rat" where
  "rat_or_0 x = (case x of None \<Rightarrow> 0 | Some n \<Rightarrow> n)"

text \<open>The rows of \<^verbatim>\<open>WHERE user_id = ?\<close>.\<close>

definition owned_rows :: "database \<Rightarrow> string \<Rightarrow> task list" where
  "owned_rows db u = filter (\<lambda>row. user_id row = Some u) db"

record statistics =
  total_tasks :: int
  completed_tasks :: int
  in_progress_tasks :: int
  pending_tasks :: int
  urgent_tasks :: int
  avg_completion :: int
  avg_priority_score :: int
  completion_rate :: int

definition getStatistics :: "database \<Rightarrow> string \<Rightarrow> statistics" where
  "getStatistics db u =
     (let rows = owned_rows db u;
          stats_total_tasks = int (length rows);
          stats_completed_tasks = sql_sum_case (\<lambda>row. status row = ''COMPLETED'') rows;
          stats_in_progress_tasks = sql_sum_case (\<lambda>row. status row = ''IN_PROGRESS'') rows;
          stats_pending_tasks = sql_sum_case (\<lambda>row. status row = ''TODO'') rows;
          stats_urgent_tasks = sql_sum_case is_urgent rows;
          stats_avg_completion = sql_avg completion_percentage rows;
          stats_avg_priority_score = sql_avg priority_score rows
      in \<lparr> total_tasks = stats_total_tasks,
           completed_tasks = int_or_0 stats_completed_tasks,
           in_progress_tasks = int_or_0 stats_in_progress_tasks,
           pending_tasks = int_or_0 stats_pending_tasks,
           urgent_tasks = int_or_0 stats_urgent_tasks,
           avg_completion = Math_round (rat_or_0 stats_avg_completion),
           avg_priority_score = Math_round (rat_or_0 stats_avg_priority_score),
           completion_rate =
             (if 0 < stats_total_tasks
              then Math_round
                     (js_times
                        (js_divide (of_int (int_or_0 stats_completed_tasks))
                                   (of_int stats_total_tasks))
                        100)
              else 0) \<rparr>)"

section \<open>Statements of the claims: the spec's words and sample values\<close>

subsection \<open>The scoring rules as the spec words them\<close>

definition base_weight :: "string \<Rightarrow> int" where
  "base_weight p =
     (if p = ''LOW'' then 10 else if p = ''MEDIUM'' then 25 else if p = ''HIGH'' then 40
      else if p = ''URGENT'' then 60 else 25)"

definition due_date_contribution :: "int \<Rightarrow> int" where
  "due_date_contribution d =
     (if d < 0 then 40
      else if 0 \<le> d \<and> d \<le> 1 then 35
      else if 2 \<le> d \<and> d \<le> 3 then 25
      else if 4 \<le> d \<and> d \<le> 7 then 15
      else 5)"

text \<open>
  The contribution of a due date that is present: that of its whole days until due, and
  the last case (5) when the date is not valid.
\<close>

definition spec_priority_score :: "clock \<Rightarrow> task \<Rightarrow> int" where
  "spec_priority_score now t =
     min (base_weight (priority t) + (if is_urgent t then 20 else 0)
          + (case due_date t of
               None \<Rightarrow> 0
             | Some v \<Rightarrow>
                 if truthy_date v
                 then (case Task_daysUntilDue now v of
                         None \<Rightarrow> 5
                       | Some d \<Rightarrow> due_date_contribution d)
                 else 0))
         100"

definition spec_completion_percentage :: "string \<Rightarrow> int" where
  "spec_completion_percentage s =
     (if s = ''TODO'' then 0 else if s = ''IN_PROGRESS'' then 50
      else if s = ''COMPLETED'' then 100 else if s = ''CANCELLED'' then 0 else 0)"

subsection \<open>Consistency of the stored derived fields\<close>

text \<open>
  A row is consistent at the time of a call when its two derived columns are what the
  two scoring methods return for the row at that time.
\<close>

definition derived_consistent :: "clock \<Rightarrow> task \<Rightarrow> bool" where
  "derived_consistent now row =
     (completion_percentage row = calculateCompletionPercentage row
      \<and> priority_score row = calculatePriorityScore now row)"

text \<open>The task \<open>Task.update\<close> writes back: the row read, merged with the payload, rescored.\<close>

definition updated_task :: "string \<Rightarrow> clock \<Rightarrow> task \<Rightarrow> task_data \<Rightarrow> task" where
  "updated_task uuid now row updateData =
     (let task1 = Object_assign (Task uuid (row_data row)) updateData
      in task1\<lparr>completion_percentage := calculateCompletionPercentage task1,
                priority_score := calculatePriorityScore now task1\<rparr>)"

subsection \<open>The search as the spec words it\<close>




subsection \<open>The completion rate as the spec words it\<close>

definition completed_rows :: "database \<Rightarrow> string \<Rightarrow> task list" where
  "completed_rows db u = filter (\<lambda>row. status row = ''COMPLETED'') (owned_rows db u)"

definition exact_percentage :: "database \<Rightarrow> string \<Rightarrow> rat" where
  "exact_percentage db u =
     100 * of_nat (length (completed_rows db u)) / of_nat (length (owned_rows db u))"

subsection \<open>Sample values\<close>

definition no_data :: task_data where
  "no_data =
     \<lparr> data_id = None, data_title = None, data_description = None, data_status = None,
       data_priority = None, data_is_urgent = None, data_due_date = None,
       data_completion_percentage = None, data_priority_score = None, data_user_id = None,
       data_created_at = None, data_updated_at = None \<rparr>"

definition day :: int where
  "day = 86400000"

text \<open>
  A server in UTC at the instant \<open>ms\<close>, whose store runs the statement in the same
  millisecond.
\<close>

definition clock_at :: "int \<Rightarrow> clock" where
  "clock_at ms = \<lparr> Date_now = ms, store_now = ms, utcOffset = (\<lambda>instant. 0) \<rparr>"

text \<open>
  Due dates as \<open>toISOString()\<close> writes them, which \<open>moment\<close> and \<open>Date\<close> read as the
  instant written and which are no numeric literals; and a due date of digits only, which
  \<open>isISO8601()\<close> of the route's validation accepts: \<open>moment\<close> reads it as the last
  day of 2099, \<open>Date\<close> does not read it, and to SQLite it is an integer literal.
\<close>

definition due_1970_01_03 :: date_value where
  "due_1970_01_03 =
     DateString ''1970-01-03T00:00:00.000Z'' (Some (2 * day)) (Some (2 * day)) None"

definition due_1970_01_11 :: date_value where
  "due_1970_01_11 =
     DateString ''1970-01-11T00:00:00.000Z'' (Some (10 * day)) (Some (10 * day)) None"

definition due_20991231 :: date_value where
  "due_20991231 = DateString ''20991231'' (Some 4102358400000) None (Some 20991231)"

definition inherited_task :: task where
  "inherited_task =
     Task ''task-004''
       (no_data\<lparr> data_title := Some ''Write report'', data_status := Some ''constructor'',
                 data_priority := Some ''constructor'', data_user_id := Some ''admin-001'' \<rparr>)"

definition seeded_task :: task where
  "seeded_task =
     \<lparr> task_id = ''task-002'', title = Some ''Design Database Schema'',
       description = Some ''Create the database structure for the task management system'',
       status = ''IN_PROGRESS'', priority = ''HIGH'', is_urgent = False,
       due_date = Some due_1970_01_03, completion_percentage = Number 0,
       priority_score = Number 0, user_id = Some ''admin-001'',
       created_at = None, updated_at = None \<rparr>"

definition example_row :: task where
  "example_row =
     \<lparr> task_id = ''task-010'', title = Some ''Plan sprint'', description = None,
       status = ''TODO'', priority = ''MEDIUM'', is_urgent = False,
       due_date = Some due_1970_01_11, completion_percentage = Number 0,
       priority_score = Number 30, user_id = Some ''admin-001'',
       created_at = Some 0, updated_at = Some 0 \<rparr>"

definition example_data :: task_data where
  "example_data =
     no_data\<lparr> data_title := Some ''Plan sprint'', data_priority := Some ''HIGH'',
              data_due_date := Some due_1970_01_11, data_user_id := Some ''admin-001'',
              data_priority_score := Some (Number 7) \<rparr>"

definition created_row :: task where
  "created_row =
     \<lparr> task_id = ''task-011'', title = Some ''Plan sprint'', description = None,
       status = ''TODO'', priority = ''HIGH'', is_urgent = False,
       due_date = Some due_1970_01_11, completion_percentage = Number 0,
       priority_score = Number 45, user_id = Some ''admin-001'',
       created_at = Some 0, updated_at = Some 0 \<rparr>"

definition example_update :: task_data where
  "example_update =
     no_data\<lparr> data_id := Some ''task-999'', data_status := Some ''COMPLETED'',
              data_completion_percentage := Some (Number 1),
              data_priority_score := Some (Number 1),
              data_user_id := Some ''mallory'', data_created_at := Some (5 * day) \<rparr>"

definition updated_row :: task where
  "updated_row =
     created_row\<lparr> status := ''COMPLETED'', completion_percentage := Number 100,
                  priority_score := Number 75, updated_at := Some (9 * day) \<rparr>"

text \<open>
  A task due \<open>20991231\<close>, created on 2 November 2026 (day 20759 since the epoch), and
  the row the store then holds.
\<close>

definition digits_data :: task_data where
  "digits_data =
     no_data\<lparr> data_title := Some ''Renew lease'', data_due_date := Some due_20991231,
              data_user_id := Some ''admin-001'' \<rparr>"

definition digits_row :: task where
  "digits_row =
     \<lparr> task_id = ''task-020'', title = Some ''Renew lease'', description = None,
       status = ''TODO'', priority = ''MEDIUM'', is_urgent = False,
       due_date = Some (DateNumber 20991231), completion_percentage = Number 0,
       priority_score = Number 30, user_id = Some ''admin-001'',
       created_at = Some (20759 * day), updated_at = Some (20759 * day) \<rparr>"

definition no_options :: options where
  "no_options =
     \<lparr> opt_user_id = None, opt_page = None, opt_limit = None, opt_status = None,
       opt_priority = None, opt_is_urgent = None, opt_search = None, opt_sort_by = None,
       opt_sort_order = None \<rparr>"


definition sample_task :: "string \<Rightarrow> nat \<Rightarrow> task" where
  "sample_task s k =
     \<lparr> task_id = ''task-'' @ replicate k (CHR ''i''), title = Some ''Task'',
       description = None, status = s, priority = ''MEDIUM'', is_urgent = False,
       due_date = None,
       completion_percentage = (if s = ''COMPLETED'' then Number 100 else Number 0),
       priority_score = Number 25, user_id = Some ''admin-001'',
       created_at = Some 0, updated_at = Some 0 \<rparr>"

definition forty_tasks :: database where
  "forty_tasks = map (sample_task ''COMPLETED'') [0..<23] @ map (sample_task ''TODO'') [23..<40]"

section \<open>Sample computations\<close>

lemmas model_defs =
  update_def findById_def get_by_id_def Task_def row_data_def Object_assign_def
  string_or_def jsval_of_def js_or_def calculateCompletionPercentage_def
  calculatePriorityScore_def get_property_def statusPercentages_def priorityWeights_def
  Object_prototype_def Task_daysUntilDue_def moment_diff_days_def absFloor_def
  due_date_points_def due_date_urgency_def run_update_def set_columns_def
  stored_due_date_def CURRENT_TIMESTAMP_def check_constraints_def create_def
  run_insert_def truthy_string_def no_data_def day_def clock_at_def due_1970_01_11_def
  example_row_def

lemmas query_defs =
  findAll_def validSortOrder_def validSortBy_def whereConditions_def user_id_condition_def
  status_condition_def priority_condition_def is_urgent_condition_def search_condition_def
  allowedSortFields_def allowedSortOrders_def no_options_def

lemma create_example:
  "create ''task-011'' (clock_at 0) [] example_data
     = Inr ([created_row], created_row\<lparr>created_at := None, updated_at := None\<rparr>)"
  by (simp add: model_defs example_data_def created_row_def)

lemma update_example:
  "update ''task-012'' (clock_at (9 * day)) [created_row] ''task-011'' example_update
     = Inr ([updated_row], Some updated_row)"
  by (simp add: model_defs example_update_def created_row_def updated_row_def)

section \<open>The scoring engine\<close>

lemma get_property_priorityWeights:
  "priority t \<notin> set Object_prototype \<Longrightarrow>
     js_or (get_property priorityWeights (priority t)) (Number 25)
       = Number (base_weight (priority t))"
  by (simp add: get_property_def priorityWeights_def base_weight_def js_or_def)

lemma due_date_urgency_spec: "due_date_urgency d = due_date_contribution d"
  by (simp add: due_date_urgency_def due_date_contribution_def)

text \<open>
  For every priority that is not the name of an inherited member, the score is the
  sum the spec describes, clamped at 100.
\<close>

lemma calculatePriorityScore_spec:
  "priority t \<notin> set Object_prototype \<Longrightarrow>
     calculatePriorityScore now t = Number (spec_priority_score now t)"
  by (simp add: calculatePriorityScore_def get_property_priorityWeights due_date_urgency_spec
      due_date_points_def spec_priority_score_def split: option.split)

text \<open>
  For every status that is not the name of an inherited member, the percentage is the
  one the spec lists.
\<close>

lemma calculateCompletionPercentage_spec:
  "status t \<notin> set Object_prototype \<Longrightarrow>
     calculateCompletionPercentage t = Number (spec_completion_percentage (status t))"
  by (simp add: calculateCompletionPercentage_def get_property_def statusPercentages_def
      spec_completion_percentage_def js_or_def)

text \<open>
  C1. The priority score is the base weight of the priority (25 for an unrecognized
  one), plus 20 when urgent, plus the due-date contribution, clamped at 100. The code
  misses it for a priority that names a member of \<open>Object.prototype\<close>: the table
  lookup finds the inherited member, \<open>||\<close> keeps it, \<open>+\<close> joins it to the score as
  text, and \<open>Math.min\<close> returns \<open>NaN\<close>, not 25.
\<close>

theorem calculatePriorityScore_inherited_priority:
  "priority inherited_task = ''constructor''
   \<and> calculatePriorityScore now inherited_task = NaN
   \<and> calculatePriorityScore now inherited_task \<noteq> Number 25"
  by (simp add: inherited_task_def no_data_def Task_def string_or_def
      calculatePriorityScore_def get_property_def priorityWeights_def Object_prototype_def
      js_or_def)

text \<open>
  C2. The completion percentage is 0, 50, 100, 0 for the four statuses and 0 for any
  other status. The code misses it for a status that names a member of
  \<open>Object.prototype\<close>: the method returns the inherited member itself, not 0.
\<close>

theorem calculateCompletionPercentage_inherited_status:
  "status inherited_task = ''constructor''
   \<and> calculateCompletionPercentage inherited_task = Builtin ''constructor''
   \<and> calculateCompletionPercentage inherited_task \<noteq> Number 0"
  by (simp add: inherited_task_def no_data_def Task_def string_or_def
      calculateCompletionPercentage_def get_property_def statusPercentages_def
      Object_prototype_def js_or_def)

text \<open>
  The day count of the seeding code is that of \<open>Task.calculatePriorityScore\<close>, or one
  more: for a date both libraries read as the same instant, on a server whose offset is
  the same now and then, \<open>Math.ceil\<close> gives one more than \<open>diff\<close> exactly when the
  date lies ahead by no whole number of days.
\<close>

lemma seed_daysUntilDue_ceiling:
  assumes "Date_getTime v = Some dueDate" and "moment_valueOf v = Some dueDate"
    and "utcOffset now dueDate = utcOffset now (Date_now now)"
  shows "seed_daysUntilDue now v =
           Some (if Date_now now < dueDate \<and> \<not> 86400000 dvd (dueDate - Date_now now)
                 then moment_diff_days dueDate now + 1
                 else moment_diff_days dueDate now)
         \<and> Task_daysUntilDue now v = Some (moment_diff_days dueDate now)"
proof -
  define q where "q = dueDate - Date_now now"
  define x :: rat where "x = of_int q / 86400000"
  have whole: "(x = of_int \<lfloor>x\<rfloor>) = (86400000 dvd q)"
  proof
    assume "x = of_int \<lfloor>x\<rfloor>"
    then have "(of_int q :: rat) = of_int (\<lfloor>x\<rfloor> * 86400000)"
      by (simp add: x_def field_simps)
    then have "q = \<lfloor>x\<rfloor> * 86400000"
      by (simp only: of_int_eq_iff)
    then show "86400000 dvd q" by simp
  next
    assume "86400000 dvd q"
    then obtain k where "q = 86400000 * k" by (rule dvdE)
    then have "x = of_int k" by (simp add: x_def)
    then show "x = of_int \<lfloor>x\<rfloor>" by simp
  qed
  have neg: "(x < 0) = (q < 0)" and pos: "(0 < x) = (0 < q)"
    by (simp_all add: x_def zero_less_divide_iff divide_less_0_iff)
  have "\<lceil>x\<rceil> = (if 0 < q \<and> \<not> 86400000 dvd q then absFloor x + 1 else absFloor x)"
    using whole neg pos by (auto simp: absFloor_def ceiling_altdef)
  moreover have "(Date_now now < dueDate) = (0 < q)"
    by (simp add: q_def)
  ultimately show ?thesis
    using assms
    by (simp add: seed_daysUntilDue_def Task_daysUntilDue_def moment_diff_days_def
        flip: q_def x_def)
qed

text \<open>
  C8. The seeding computation of \<open>initializeDatabase\<close> and
  \<open>Task.calculatePriorityScore\<close> round the day difference differently, the one with
  \<open>Math.ceil\<close> and the other by truncation, so their scores differ for a task and a
  time: the second sample task, of priority HIGH and due two days after the clock
  reading \<open>Date.now()\<close> that dates it, is seeded a millisecond later, when \<open>Math.ceil\<close>
  gives 2 days and the score 65, while at that same time \<open>diff\<close> gives 1 day and
  \<open>Task.calculatePriorityScore\<close> the score 75. The rounding is the only difference:
  for every task and time at which the two day counts agree, the two scores agree.
\<close>

theorem seed_and_model_scores_differ:
  "due_date seeded_task = Some due_1970_01_03
   \<and> seed_daysUntilDue (clock_at 1) due_1970_01_03 = Some 2
   \<and> Task_daysUntilDue (clock_at 1) due_1970_01_03 = Some 1
   \<and> seed_priority_score (clock_at 1) seeded_task = Number 65
   \<and> calculatePriorityScore (clock_at 1) seeded_task = Number 75
   \<and> ((\<forall>v. due_date t = Some v \<longrightarrow> seed_daysUntilDue now v = Task_daysUntilDue now v)
        \<longrightarrow> seed_priority_score now t = calculatePriorityScore now t)"
proof (intro conjI impI)
  show "due_date seeded_task = Some due_1970_01_03"
    by (simp add: seeded_task_def)
  show "seed_daysUntilDue (clock_at 1) due_1970_01_03 = Some 2"
    by (simp add: seed_daysUntilDue_def due_1970_01_03_def clock_at_def day_def
        ceiling_eq_iff)
  show "Task_daysUntilDue (clock_at 1) due_1970_01_03 = Some 1"
    by (simp add: Task_daysUntilDue_def moment_diff_days_def absFloor_def due_1970_01_03_def
        clock_at_def day_def floor_eq_iff)
  show "seed_priority_score (clock_at 1) seeded_task = Number 65"
    by (simp add: seeded_task_def seed_priority_score_def get_property_def priorityWeights_def
        js_or_def due_date_points_def due_date_urgency_def seed_daysUntilDue_def
        due_1970_01_03_def clock_at_def day_def)
  show "calculatePriorityScore (clock_at 1) seeded_task = Number 75"
    by (simp add: seeded_task_def calculatePriorityScore_def get_property_def
        priorityWeights_def js_or_def due_date_points_def due_date_urgency_def
        Task_daysUntilDue_def moment_diff_days_def absFloor_def due_1970_01_03_def
        clock_at_def day_def)
next
  assume "\<forall>v. due_date t = Some v \<longrightarrow> seed_daysUntilDue now v = Task_daysUntilDue now v"
  then show "seed_priority_score now t = calculatePriorityScore now t"
    by (cases "due_date t")
       (simp_all add: seed_priority_score_def calculatePriorityScore_def Let_def)
qed

theorem seed_and_model_scores_differ_witness:
  "due_date seeded_task = Some due_1970_01_03
   \<and> seed_daysUntilDue (clock_at 0) due_1970_01_03 = Some 2
   \<and> Task_daysUntilDue (clock_at 0) due_1970_01_03 = Some 2
   \<and> seed_priority_score (clock_at 0) seeded_task = Number 65
   \<and> calculatePriorityScore (clock_at 0) seeded_task = Number 65"
  using seed_and_model_scores_differ [where now = "clock_at 0" and t = seeded_task]
  by (simp add: seeded_task_def calculatePriorityScore_def get_property_def
      priorityWeights_def js_or_def due_date_points_def due_date_urgency_def
      Task_daysUntilDue_def moment_diff_days_def absFloor_def seed_daysUntilDue_def
      due_1970_01_03_def clock_at_def day_def)

section \<open>Create and update\<close>

lemma calculateCompletionPercentage_cong:
  "status a = status b \<Longrightarrow> calculateCompletionPercentage a = calculateCompletionPercentage b"
  by (simp add: calculateCompletionPercentage_def)

lemma calculatePriorityScore_cong:
  "priority a = priority b \<Longrightarrow> is_urgent a = is_urgent b \<Longrightarrow> due_date a = due_date b \<Longrightarrow>
     calculatePriorityScore now a = calculatePriorityScore now b"
  by (simp add: calculatePriorityScore_def)

lemma derived_consistent_recomputed:
  "derived_consistent now
     (t\<lparr>completion_percentage := calculateCompletionPercentage t,
        priority_score := calculatePriorityScore now
          (t\<lparr>completion_percentage := calculateCompletionPercentage t\<rparr>),
        created_at := c, updated_at := u\<rparr>)"
  unfolding derived_consistent_def
  by (auto intro: calculateCompletionPercentage_cong calculatePriorityScore_cong)

lemma find_append_new:
  "i \<notin> set (map task_id db) \<Longrightarrow> task_id row = i \<Longrightarrow>
     find (\<lambda>r. task_id r = i) (db @ [row]) = Some row"
  by (induction db) auto

lemma create_Inr:
  assumes "create uuid now db taskData = Inr (db', t)"
  shows "\<exists>row. db' = db @ [row] \<and> get_by_id db' (task_id t) = Some row
           \<and> row = t\<lparr> due_date := stored_due_date (due_date t),
                       created_at := Some (CURRENT_TIMESTAMP now),
                       updated_at := Some (CURRENT_TIMESTAMP now) \<rparr>
           \<and> derived_consistent now (t\<lparr>created_at := c, updated_at := u\<rparr>)"
proof -
  define t0 where "t0 = Task uuid taskData"
  define t2 where "t2 = t0\<lparr>completion_percentage := calculateCompletionPercentage t0,
      priority_score := calculatePriorityScore now
        (t0\<lparr>completion_percentage := calculateCompletionPercentage t0\<rparr>)\<rparr>"
  from assms have ins: "run_insert now t2 db = Inr db'" and t: "t = t2"
    by (auto simp: create_def Let_def t0_def t2_def split: if_splits sum.splits)
  define row where "row = t2\<lparr> due_date := stored_due_date (due_date t2),
      created_at := Some (CURRENT_TIMESTAMP now), updated_at := Some (CURRENT_TIMESTAMP now) \<rparr>"
  from ins have db': "db' = db @ [row]" and fresh: "task_id t2 \<notin> set (map task_id db)"
    by (auto simp: run_insert_def Let_def row_def split: if_splits)
  have "task_id row = task_id t2" by (simp add: row_def)
  with fresh have "get_by_id db' (task_id t) = Some row"
    by (simp add: get_by_id_def db' t find_append_new)
  moreover have "derived_consistent now (t2\<lparr>created_at := c, updated_at := u\<rparr>)"
    unfolding t2_def by (simp add: derived_consistent_recomputed)
  ultimately show ?thesis using db' t row_def by blast
qed

lemma update_Inr:
  assumes "update uuid now db i updateData = Inr (db', result)"
  shows "\<exists>row. get_by_id db i = Some row
           \<and> db' = map (\<lambda>r. if task_id r = i
                             then set_columns now (updated_task uuid now row updateData) r
                             else r) db
           \<and> result = findById uuid db' i"
proof -
  from assms obtain row where row: "get_by_id db i = Some row"
    by (auto simp: update_def findById_def split: option.splits)
  define task1 where "task1 = Object_assign (Task uuid (row_data row)) updateData"
  have score: "calculatePriorityScore now
         (task1\<lparr>completion_percentage := calculateCompletionPercentage task1\<rparr>)
       = calculatePriorityScore now task1"
    by (rule calculatePriorityScore_cong) simp_all
  have t3: "task1\<lparr>completion_percentage := calculateCompletionPercentage task1,
               priority_score := calculatePriorityScore now
                 (task1\<lparr>completion_percentage := calculateCompletionPercentage task1\<rparr>)\<rparr>
            = updated_task uuid now row updateData"
    by (simp add: updated_task_def Let_def score flip: task1_def)
  from assms row have
    "run_update now (updated_task uuid now row updateData) i db = Inr db'"
    and "result = findById uuid db' i"
    by (auto simp: update_def findById_def Let_def t3[unfolded task1_def] split: sum.splits)
  then show ?thesis using row
    by (auto simp: run_update_def split: if_splits)
qed

lemma get_by_id_map:
  "(\<And>r. task_id (f r) = task_id r) \<Longrightarrow>
     get_by_id (map (\<lambda>r. if task_id r = i then f r else r) db) i
       = map_option f (get_by_id db i)"
  by (induction db) (auto simp: get_by_id_def)

lemma task_id_set_columns [simp]: "task_id (set_columns now t r) = task_id r"
  and user_id_set_columns [simp]: "user_id (set_columns now t r) = user_id r"
  and created_at_set_columns [simp]: "created_at (set_columns now t r) = created_at r"
  by (simp_all add: set_columns_def)

lemma derived_consistent_due_date:
  assumes "derived_consistent now t"
    and "completion_percentage row = completion_percentage t"
    and "priority_score row = priority_score t"
    and "status row = status t" and "priority row = priority t"
    and "is_urgent row = is_urgent t" and "due_date row = due_date t"
  shows "derived_consistent now row"
  using assms
  by (simp add: derived_consistent_def calculateCompletionPercentage_def
      calculatePriorityScore_def)

lemma derived_consistent_updated_task:
  "derived_consistent now (updated_task uuid now row updateData)"
  by (simp add: derived_consistent_def updated_task_def Let_def
      calculateCompletionPercentage_def calculatePriorityScore_def)

text \<open>
  A successful \<open>Task.create\<close> or \<open>Task.update\<close> leaves the row it wrote consistent
  at the time of the call whenever the store keeps the due date as it was given: that
  is, whenever the due date is absent, a number, or a text that is no numeric literal.
\<close>

lemma create_consistent_unless_converted:
  assumes "create uuid now db taskData = Inr (db', t)"
    and "stored_due_date (due_date t) = due_date t"
  shows "\<exists>row. get_by_id db' (task_id t) = Some row \<and> derived_consistent now row"
proof -
  from create_Inr [OF assms(1), of None None] obtain row where
    row: "get_by_id db' (task_id t) = Some row"
    and eq: "row = t\<lparr> due_date := stored_due_date (due_date t),
                       created_at := Some (CURRENT_TIMESTAMP now),
                       updated_at := Some (CURRENT_TIMESTAMP now) \<rparr>"
    and c: "derived_consistent now (t\<lparr>created_at := None, updated_at := None\<rparr>)"
    by blast
  from c have "derived_consistent now row"
    by (rule derived_consistent_due_date) (simp_all add: eq assms(2))
  with row show ?thesis by blast
qed

lemma update_consistent_unless_converted:
  assumes "update uuid now db i updateData = Inr (db', result)"
    and "get_by_id db i = Some row"
    and "stored_due_date (due_date (updated_task uuid now row updateData))
           = due_date (updated_task uuid now row updateData)"
  shows "\<exists>row'. get_by_id db' i = Some row' \<and> derived_consistent now row'"
proof -
  from update_Inr [OF assms(1)] assms(2) have
    db': "db' = map (\<lambda>r. if task_id r = i
                 then set_columns now (updated_task uuid now row updateData) r else r) db"
    by auto
  have row': "get_by_id db' i
      = Some (set_columns now (updated_task uuid now row updateData) row)"
    by (simp add: db' get_by_id_map assms(2))
  have "derived_consistent now (set_columns now (updated_task uuid now row updateData) row)"
    by (rule derived_consistent_due_date [OF derived_consistent_updated_task])
       (simp_all add: set_columns_def assms(3))
  with row' show ?thesis by blast
qed

text \<open>
  C5. After a successful \<open>Task.create\<close> or \<open>Task.update\<close> the stored completion
  percentage and priority score are those of the stored status, priority, urgency and due
  date at the time of the write. The code misses it for a due date of digits only, which
  the validation of the route accepts as ISO 8601. \<open>Task.create\<close> scores the text
  \<open>20991231\<close> as the last day of 2099, which adds 5 to the weight 25 of MEDIUM; the
  column \<open>due_date\<close> converts the text to the integer 20991231, which the scoring
  method reads as that many milliseconds after the epoch, a date in 1970 and overdue: on
  the stored row the method returns 65, and the row holds 30. \<open>Task.update\<close> with
  that due date in its payload stores the same row.
\<close>

theorem create_digits_due_date_inconsistent:
  "create ''task-020'' (clock_at (20759 * day)) [] digits_data
     = Inr ([digits_row],
            digits_row\<lparr>due_date := Some due_20991231, created_at := None, updated_at := None\<rparr>)
   \<and> update ''task-021'' (clock_at (20759 * day)) [digits_row] ''task-020''
         (no_data\<lparr>data_due_date := Some due_20991231\<rparr>)
     = Inr ([digits_row], Some digits_row)
   \<and> get_by_id [digits_row] ''task-020'' = Some digits_row
   \<and> due_date digits_row = Some (DateNumber 20991231)
   \<and> Task_daysUntilDue (clock_at (20759 * day)) due_20991231 = Some 26722
   \<and> Task_daysUntilDue (clock_at (20759 * day)) (DateNumber 20991231) = Some (- 20758)
   \<and> priority_score digits_row = Number 30
   \<and> calculatePriorityScore (clock_at (20759 * day)) digits_row = Number 65
   \<and> \<not> derived_consistent (clock_at (20759 * day)) digits_row"
proof (intro conjI)
  show "create ''task-020'' (clock_at (20759 * day)) [] digits_data
     = Inr ([digits_row],
            digits_row\<lparr>due_date := Some due_20991231, created_at := None, updated_at := None\<rparr>)"
    by (simp add: model_defs digits_data_def digits_row_def due_20991231_def floor_eq_iff)
  show "update ''task-021'' (clock_at (20759 * day)) [digits_row] ''task-020''
         (no_data\<lparr>data_due_date := Some due_20991231\<rparr>)
     = Inr ([digits_row], Some digits_row)"
    by (simp add: model_defs digits_row_def due_20991231_def floor_eq_iff)
  show "get_by_id [digits_row] ''task-020'' = Some digits_row"
    by (simp add: get_by_id_def digits_row_def)
  show "due_date digits_row = Some (DateNumber 20991231)"
    by (simp add: digits_row_def)
  show "Task_daysUntilDue (clock_at (20759 * day)) due_20991231 = Some 26722"
    by (simp add: Task_daysUntilDue_def moment_diff_days_def absFloor_def due_20991231_def
        clock_at_def day_def)
  show "Task_daysUntilDue (clock_at (20759 * day)) (DateNumber 20991231) = Some (- 20758)"
    by (simp add: Task_daysUntilDue_def moment_diff_days_def absFloor_def TimeClip_def
        clock_at_def day_def ceiling_eq_iff)
  show "priority_score digits_row = Number 30"
    by (simp add: digits_row_def)
  show score: "calculatePriorityScore (clock_at (20759 * day)) digits_row = Number 65"
    by (simp add: model_defs digits_row_def TimeClip_def ceiling_less_iff)
  show "\<not> derived_consistent (clock_at (20759 * day)) digits_row"
    by (simp add: derived_consistent_def score) (simp add: digits_row_def)
qed

text \<open>
  C9. \<open>Task.update\<close> leaves the id, the owner and the creation time of every row as
  they were, whatever the payload holds, also under the keys \<open>id\<close>, \<open>user_id\<close> and
  \<open>created_at\<close>.
\<close>

theorem update_keeps_identity:
  assumes "update uuid now db i updateData = Inr (db', result)"
  shows "map task_id db' = map task_id db \<and> map user_id db' = map user_id db
         \<and> map created_at db' = map created_at db
         \<and> (\<exists>row row'. get_by_id db i = Some row \<and> get_by_id db' i = Some row'
               \<and> task_id row' = task_id row \<and> user_id row' = user_id row
               \<and> created_at row' = created_at row)"
proof -
  from update_Inr [OF assms] obtain row where row: "get_by_id db i = Some row"
    and db': "db' = map (\<lambda>r. if task_id r = i
                 then set_columns now (updated_task uuid now row updateData) r else r) db"
    by blast
  have "map task_id db' = map task_id db" "map user_id db' = map user_id db"
       "map created_at db' = map created_at db"
    by (simp_all add: db' comp_def if_distrib cong: if_cong)
  moreover have "get_by_id db' i
      = Some (set_columns now (updated_task uuid now row updateData) row)"
    by (simp add: db' get_by_id_map row)
  ultimately show ?thesis using row by simp
qed

theorem update_keeps_identity_witness:
  "update ''task-012'' (clock_at (9 * day)) [created_row] ''task-011'' example_update
     = Inr ([updated_row], Some updated_row)
   \<and> data_id example_update = Some ''task-999''
   \<and> data_user_id example_update = Some ''mallory''
   \<and> data_created_at example_update = Some (5 * day)
   \<and> task_id updated_row = ''task-011''
   \<and> user_id updated_row = Some ''admin-001''
   \<and> created_at updated_row = Some 0"
  using update_keeps_identity [OF update_example] update_example
  by (simp add: example_update_def updated_row_def created_row_def no_data_def)

lemma update_ignores_payload_derived_fields:
  "update uuid now db i
      (updateData\<lparr>data_completion_percentage := x, data_priority_score := y\<rparr>)
   = update uuid now db i updateData"
proof -
  have cp: "calculateCompletionPercentage
              (Object_assign t (updateData\<lparr>data_completion_percentage := x, data_priority_score := y\<rparr>))
            = calculateCompletionPercentage (Object_assign t updateData)" for t
    by (rule calculateCompletionPercentage_cong) (simp add: Object_assign_def)
  have ps: "calculatePriorityScore now
              (Object_assign t (updateData\<lparr>data_completion_percentage := x, data_priority_score := y\<rparr>)
                 \<lparr>completion_percentage := c\<rparr>)
            = calculatePriorityScore now (Object_assign t updateData\<lparr>completion_percentage := c\<rparr>)" for t c
    by (rule calculatePriorityScore_cong) (simp_all add: Object_assign_def)
  have ru: "run_update now (Object_assign t (updateData\<lparr>data_completion_percentage := x, data_priority_score := y\<rparr>)
                \<lparr>completion_percentage := c, priority_score := p\<rparr>) i db
          = run_update now (Object_assign t updateData\<lparr>completion_percentage := c, priority_score := p\<rparr>) i db" for t c p
    by (simp add: run_update_def set_columns_def Object_assign_def)
  show ?thesis
    by (simp add: update_def Let_def cp ps ru cong: option.case_cong)
qed

text \<open>
  C10. Every call of \<open>Task.update\<close> stores both derived fields recomputed from the
  merged record and the clock of the call: a completion percentage or priority score in
  the payload changes nothing in the outcome, and two updates of the title alone, at
  times far enough apart, store different priority scores for a task with a due date.
\<close>

theorem update_always_recomputes:
  "update uuid now db i
      (updateData\<lparr>data_completion_percentage := x, data_priority_score := y\<rparr>)
     = update uuid now db i updateData
   \<and> (update uuid now db i updateData = Inr (db', result) \<longrightarrow>
        (\<exists>row row'. get_by_id db i = Some row \<and> get_by_id db' i = Some row'
           \<and> completion_percentage row'
               = calculateCompletionPercentage (Object_assign (Task uuid (row_data row)) updateData)
           \<and> priority_score row'
               = calculatePriorityScore now (Object_assign (Task uuid (row_data row)) updateData)))
   \<and> (\<exists>db0 db1 db2 r1 r2 row0 row1 row2 s1 s2 t1 t2.
         due_date row0 \<noteq> None
         \<and> get_by_id db0 ''task-010'' = Some row0
         \<and> update uuid t1 db0 ''task-010'' (no_data\<lparr>data_title := Some s1\<rparr>) = Inr (db1, r1)
         \<and> update uuid t2 db1 ''task-010'' (no_data\<lparr>data_title := Some s2\<rparr>) = Inr (db2, r2)
         \<and> get_by_id db1 ''task-010'' = Some row1
         \<and> get_by_id db2 ''task-010'' = Some row2
         \<and> priority_score row1 \<noteq> priority_score row2)"
proof (intro conjI impI)
  show "update uuid now db i
      (updateData\<lparr>data_completion_percentage := x, data_priority_score := y\<rparr>)
     = update uuid now db i updateData"
    by (rule update_ignores_payload_derived_fields)
next
  assume a: "update uuid now db i updateData = Inr (db', result)"
  from update_Inr [OF a] obtain row where row: "get_by_id db i = Some row"
    and db': "db' = map (\<lambda>r. if task_id r = i
                 then set_columns now (updated_task uuid now row updateData) r else r) db"
    by blast
  have "get_by_id db' i = Some (set_columns now (updated_task uuid now row updateData) row)"
    by (simp add: db' get_by_id_map row)
  then show "\<exists>row row'. get_by_id db i = Some row \<and> get_by_id db' i = Some row'
           \<and> completion_percentage row'
               = calculateCompletionPercentage (Object_assign (Task uuid (row_data row)) updateData)
           \<and> priority_score row'
               = calculatePriorityScore now (Object_assign (Task uuid (row_data row)) updateData)"
    using row by (simp add: set_columns_def updated_task_def Let_def)
next
  let ?row1 = "example_row\<lparr>title := Some ''Plan the sprint'', updated_at := Some day\<rparr>"
  let ?row2 = "example_row\<lparr>title := Some ''Plan next sprint'', priority_score := Number 60,
                 updated_at := Some (9 * day)\<rparr>"
  have u1: "update uuid (clock_at day) [example_row] ''task-010'' (no_data\<lparr>data_title := Some ''Plan the sprint''\<rparr>)
          = Inr ([?row1], Some ?row1)"
    by (simp add: model_defs)
  have u2: "update uuid (clock_at (9 * day)) [?row1] ''task-010'' (no_data\<lparr>data_title := Some ''Plan next sprint''\<rparr>)
          = Inr ([?row2], Some ?row2)"
    by (simp add: model_defs)
  have "due_date example_row \<noteq> None" "get_by_id [example_row] ''task-010'' = Some example_row"
    "get_by_id [?row1] ''task-010'' = Some ?row1" "get_by_id [?row2] ''task-010'' = Some ?row2"
    "priority_score ?row1 \<noteq> priority_score ?row2"
    by (simp_all add: model_defs)
  with u1 u2 show "\<exists>db0 db1 db2 r1 r2 row0 row1 row2 s1 s2 t1 t2.
         due_date row0 \<noteq> None
         \<and> get_by_id db0 ''task-010'' = Some row0
         \<and> update uuid t1 db0 ''task-010'' (no_data\<lparr>data_title := Some s1\<rparr>) = Inr (db1, r1)
         \<and> update uuid t2 db1 ''task-010'' (no_data\<lparr>data_title := Some s2\<rparr>) = Inr (db2, r2)
         \<and> get_by_id db1 ''task-010'' = Some row1
         \<and> get_by_id db2 ''task-010'' = Some row2
         \<and> priority_score row1 \<noteq> priority_score row2"
    by blast
qed

theorem update_always_recomputes_witness:
  "update ''task-012'' (clock_at (9 * day)) [example_row] ''task-010''
      (no_data\<lparr> data_title := Some ''Plan next sprint'',
                data_completion_percentage := Some (Number 99),
                data_priority_score := Some (Number 1) \<rparr>)
     = Inr ([example_row\<lparr> title := Some ''Plan next sprint'', priority_score := Number 60,
                            updated_at := Some (9 * day) \<rparr>],
            Some (example_row\<lparr> title := Some ''Plan next sprint'', priority_score := Number 60,
                                updated_at := Some (9 * day) \<rparr>))
   \<and> calculateCompletionPercentage
         (Object_assign (Task ''task-012'' (row_data example_row))
            (no_data\<lparr>data_title := Some ''Plan next sprint''\<rparr>)) = Number 0
   \<and> calculatePriorityScore (clock_at (9 * day))
         (Object_assign (Task ''task-012'' (row_data example_row))
            (no_data\<lparr>data_title := Some ''Plan next sprint''\<rparr>)) = Number 60"
  using update_always_recomputes
    [where uuid = "''task-012''" and now = "clock_at (9 * day)" and db = "[example_row]"
       and i = "''task-010''"
       and updateData = "no_data\<lparr>data_title := Some ''Plan next sprint''\<rparr>"
       and x = "Some (Number 99)" and y = "Some (Number 1)"
       and db' = "[example_row\<lparr> title := Some ''Plan next sprint'',
                      priority_score := Number 60, updated_at := Some (9 * day) \<rparr>]"
       and result = "Some (example_row\<lparr> title := Some ''Plan next sprint'',
                      priority_score := Number 60, updated_at := Some (9 * day) \<rparr>)"]
  by (simp add: model_defs)

section \<open>The query builder\<close>

text \<open>
  C3 as stated fails: called without \<open>user_id\<close>, \<open>findAll\<close> builds a query with no
  owner filter, here the tasks of every owner that are still to do.
\<close>

theorem findAll_without_user_id:
  "findAll (no_options\<lparr>opt_status := Some ''TODO''\<rparr>)
     = Inr \<lparr> query_where = [status_eq ''TODO''],
             query_order_by = (''created_at'', ''DESC''),
             query_limit = 10, query_offset = 0,
             sorting = (''created_at'', ''DESC'') \<rparr>"
  by (simp add: query_defs)

text \<open>
  C3, amended. The conditions of the query hold the owner filter \<open>user_id = u\<close> exactly
  when \<open>options.user_id\<close> is present and not empty, \<open>u\<close> being its value.
\<close>

theorem owner_filter_iff_user_id_given:
  "findAll options = Inr q \<Longrightarrow>
     (user_id_eq u \<in> set (query_where q)) = (opt_user_id options = Some u \<and> u \<noteq> [])"
proof -
  assume "findAll options = Inr q"
  then have w: "query_where q = whereConditions options"
    by (auto simp: findAll_def Let_def split: sum.splits)
  have "user_id_eq u \<notin> set (status_condition options)"
       "user_id_eq u \<notin> set (priority_condition options)"
       "user_id_eq u \<notin> set (is_urgent_condition options)"
       "user_id_eq u \<notin> set (search_condition options)"
    by (simp_all add: status_condition_def priority_condition_def is_urgent_condition_def
        search_condition_def split: option.split)
  moreover have "(user_id_eq u \<in> set (user_id_condition options))
      = (opt_user_id options = Some u \<and> u \<noteq> [])"
    by (auto simp: user_id_condition_def split: option.split)
  ultimately show ?thesis
    by (simp add: w whereConditions_def)
qed

theorem owner_filter_iff_user_id_given_witness:
  "findAll (no_options\<lparr>opt_user_id := Some ''admin-001''\<rparr>)
     = Inr \<lparr> query_where = [user_id_eq ''admin-001''],
             query_order_by = (''created_at'', ''DESC''),
             query_limit = 10, query_offset = 0,
             sorting = (''created_at'', ''DESC'') \<rparr>
   \<and> user_id_eq ''admin-001'' \<in> set [user_id_eq ''admin-001'']"
  using owner_filter_iff_user_id_given
    [where options = "no_options\<lparr>opt_user_id := Some ''admin-001''\<rparr>"
       and u = "''admin-001''"
       and q = "\<lparr> query_where = [user_id_eq ''admin-001''],
             query_order_by = (''created_at'', ''DESC''),
             query_limit = 10, query_offset = 0,
             sorting = (''created_at'', ''DESC'') \<rparr>"]
  by (simp add: query_defs)

text \<open>
  C4. The effective ordering is computed without throwing, whatever the sort parameters
  are. The code misses it for a \<open>sort_order\<close> that is no string (a number, the array
  a repeated query key gives, \<open>null\<close>): \<open>sort_order.toUpperCase()\<close> throws a
  \<open>TypeError\<close>, while such a \<open>sort_by\<close> falls back to \<open>created_at\<close>.
\<close>

theorem findAll_sort_order_not_a_string:
  "findAll (no_options\<lparr>opt_user_id := Some ''admin-001'', opt_sort_order := Some (ANum 1)\<rparr>)
     = Inl TypeError
   \<and> findAll (no_options\<lparr>opt_user_id := Some ''admin-001'',
                          opt_sort_order := Some (AArr [''ASC''])\<rparr>)
     = Inl TypeError
   \<and> findAll (no_options\<lparr>opt_user_id := Some ''admin-001'', opt_sort_order := Some ANull\<rparr>)
     = Inl TypeError"
  by (simp add: query_defs)

text \<open>
  With \<open>sort_order\<close> absent or a string, \<open>findAll\<close> returns, and the ordering of the
  query and the \<open>sorting\<close> returned are the effective values: an allow-listed field or
  \<open>created_at\<close>, and \<open>ASC\<close> or \<open>DESC\<close>, the upper-case form of the string when
  that is one of the two.
\<close>

lemma findAll_effective_sorting:
  assumes "opt_sort_order options = None
           \<or> (\<exists>s upper. opt_sort_order options = Some (AStr s upper))"
  shows "\<exists>q. findAll options = Inr q \<and> sorting q = query_order_by q
        \<and> fst (sorting q) =
            (case opt_sort_by options of
               Some (AStr f upper) \<Rightarrow> if f \<in> set allowedSortFields then f else ''created_at''
             | _ \<Rightarrow> ''created_at'')
        \<and> fst (sorting q) \<in> set allowedSortFields
        \<and> snd (sorting q) =
            (case opt_sort_order options of
               Some (AStr s upper) \<Rightarrow> if upper = ''ASC'' \<or> upper = ''DESC'' then upper else ''DESC''
             | _ \<Rightarrow> ''DESC'')
        \<and> snd (sorting q) \<in> set allowedSortOrders"
proof -
  from assms obtain o' where o': "validSortOrder options = Inr o'"
    and o'_eq: "o' = (case opt_sort_order options of
               Some (AStr s upper) \<Rightarrow> if upper = ''ASC'' \<or> upper = ''DESC'' then upper else ''DESC''
             | _ \<Rightarrow> ''DESC'')"
    and o'_in: "o' \<in> set allowedSortOrders"
    by (auto simp: validSortOrder_def allowedSortOrders_def)
  have by_eq: "validSortBy options =
            (case opt_sort_by options of
               Some (AStr f upper) \<Rightarrow> if f \<in> set allowedSortFields then f else ''created_at''
             | _ \<Rightarrow> ''created_at'')"
    by (simp add: validSortBy_def split: option.split jsarg.split)
  have "validSortBy options \<in> set allowedSortFields"
    by (simp add: validSortBy_def allowedSortFields_def split: option.split jsarg.split)
  with o' o'_eq o'_in by_eq show ?thesis
    by (simp add: findAll_def Let_def)
qed

text \<open>
  The strings \<^verbatim>\<open>'asc'\<close> and, with a long s (U+017F, whose upper-case form is \<open>S\<close>)
  for its second letter, \<^verbatim>\<open>'a\u017Fc'\<close> both sort ascending.
\<close>

lemma findAll_sort_order_asc:
  "findAll (no_options\<lparr>opt_sort_order := Some (AStr ''asc'' ''ASC'')\<rparr>)
     = Inr \<lparr> query_where = [], query_order_by = (''created_at'', ''ASC''),
             query_limit = 10, query_offset = 0, sorting = (''created_at'', ''ASC'') \<rparr>"
  "findAll (no_options\<lparr>opt_sort_order :=
               Some (AStr [CHR ''a'', CHR 0xC5, CHR 0xBF, CHR ''c''] ''ASC'')\<rparr>)
     = Inr \<lparr> query_where = [], query_order_by = (''created_at'', ''ASC''),
             query_limit = 10, query_offset = 0, sorting = (''created_at'', ''ASC'') \<rparr>"
  by (simp_all add: query_defs)

subsection \<open>The search condition\<close>

text \<open>
  \<open>_\<close> stands for one character, of one byte or of several: \<open>a_c\<close> matches \<open>abc\<close>
  and the four bytes of an \<open>a\<close>, an e with acute accent (U+00E9, the bytes \<open>0xC3\<close>
  and \<open>0xA9\<close>) and a \<open>c\<close>, which \<open>a__c\<close> does not match.
\<close>

lemma like_underscore_character:
  "like ''a_c'' ''abc''"
  "like ''a_c'' [CHR ''a'', CHR 0xC3, CHR 0xA9, CHR ''c'']"
  "\<not> like ''a__c'' [CHR ''a'', CHR 0xC3, CHR 0xA9, CHR ''c'']"
  "\<not> like ''a_c'' ''abbc''"
  by (simp_all add: upper_char_def continuation_byte_def lead_byte_def)

lemma like_percent_Nil [simp]: "like ''%'' t"
  by (induction t) simp_all








section \<open>The statistics\<close>

lemma round_half_even_error: "\<bar>of_int (round_half_even x) - x\<bar> \<le> 1 / 2"
proof -
  have "of_int \<lfloor>x\<rfloor> \<le> x" "x < of_int \<lfloor>x\<rfloor> + 1" by linarith+
  then show ?thesis
    by (auto simp: round_half_even_def Let_def)
qed

lemma exponent_le:
  assumes "0 < x"
  shows "2 powi (exponent x) \<le> x"
proof -
  obtain a b where q: "quotient_of x = (a, b)" by (cases "quotient_of x")
  then have b: "0 < b" and x: "x = of_int a / of_int b"
    by (simp_all add: quotient_of_denom_pos quotient_of_div)
  with assms have a: "0 < a"
    by (simp add: zero_less_divide_iff)
  define k where "k = bitlen a - bitlen b"
  have ex: "exponent x = (if 2 powi k \<le> x then k else k - 1)"
    using assms q by (simp add: exponent_def k_def Let_def)
  show ?thesis
  proof (cases "2 powi k \<le> x")
    case True
    with ex show ?thesis by simp
  next
    case False
    have la: "(2::int) ^ nat (bitlen a - 1) \<le> a" and lb: "b < 2 ^ nat (bitlen b)"
      using bitlen_bounds [OF a] bitlen_bounds [OF b] by simp_all
    have bl: "1 \<le> bitlen a" "0 \<le> bitlen b"
      using a bitlen_eq_zero_iff [of a] bitlen_nonneg [of a] bitlen_nonneg [of b] by linarith+
    have "(2::rat) powi (k - 1) = 2 powi ((bitlen a - 1) - bitlen b)"
      by (rule arg_cong [where f = "\<lambda>z. 2 powi z"]) (simp add: k_def)
    also have "\<dots> = 2 powi (bitlen a - 1) / 2 powi (bitlen b)"
      by (rule power_int_diff) simp
    also have "\<dots> = 2 ^ nat (bitlen a - 1) / 2 ^ nat (bitlen b)"
      using bl by (simp add: power_int_def)
    also have "\<dots> \<le> of_int a / 2 ^ nat (bitlen b)"
    proof -
      have "(of_int (2 ^ nat (bitlen a - 1)) :: rat) \<le> of_int a"
        using la by (simp only: of_int_le_iff)
      then show ?thesis by (simp add: divide_right_mono)
    qed
    also have "\<dots> \<le> of_int a / of_int b"
    proof -
      have "(of_int b :: rat) \<le> of_int (2 ^ nat (bitlen b))"
        using lb by (simp only: of_int_le_iff)
      with a b show ?thesis by (simp add: divide_left_mono)
    qed
    finally show ?thesis using ex False x by simp
  qed
qed

lemma to_double_error:
  assumes "0 < x"
  shows "\<bar>to_double x - x\<bar> \<le> x / 2 ^ 53"
proof -
  define u :: rat where "u = 2 powi (exponent x - 52)"
  have u: "0 < u" by (simp add: u_def)
  have "\<bar>of_int (round_half_even (x / u)) - x / u\<bar> \<le> 1 / 2"
    by (rule round_half_even_error)
  then have "\<bar>of_int (round_half_even (x / u)) - x / u\<bar> * u \<le> 1 / 2 * u"
    using u by (simp add: mult_right_mono)
  moreover have "\<bar>of_int (round_half_even (x / u)) - x / u\<bar> * u = \<bar>to_double x - x\<bar>"
  proof -
    have "\<bar>of_int (round_half_even (x / u)) - x / u\<bar> * u
        = \<bar>(of_int (round_half_even (x / u)) - x / u) * u\<bar>"
      using u by (simp add: abs_mult)
    also have "(of_int (round_half_even (x / u)) - x / u) * u = to_double x - x"
      using u assms by (simp add: to_double_def u_def algebra_simps)
    finally show ?thesis .
  qed
  moreover have "1 / 2 * u = 2 powi (exponent x) / 2 ^ 53"
  proof -
    have "u = 2 powi (exponent x) / 2 powi 52"
      by (simp add: u_def power_int_diff)
    then show ?thesis by simp
  qed
  moreover have "2 powi (exponent x) / 2 ^ 53 \<le> x / 2 ^ 53"
    using exponent_le [OF assms] by (simp add: divide_right_mono)
  ultimately show ?thesis by linarith
qed

lemma to_double_pos:
  assumes "0 < x"
  shows "0 < to_double x"
proof -
  have "x / 2 ^ 53 < x" using assms by simp
  with to_double_error [OF assms] show ?thesis by linarith
qed

lemma percentage_error:
  assumes "0 < q" "q \<le> 1"
  shows "\<bar>to_double (to_double q * 100) - 100 * q\<bar> \<le> 300 / 2 ^ 53"
proof -
  define eps :: rat where "eps = 1 / 2 ^ 53"
  have eps: "0 < eps" "eps \<le> 1" by (simp_all add: eps_def)
  define x1 where "x1 = to_double q"
  define x2 where "x2 = to_double (x1 * 100)"
  have e1: "\<bar>x1 - q\<bar> \<le> q * eps"
    unfolding x1_def eps_def using to_double_error [OF assms(1)] by simp
  have x1: "0 < x1" unfolding x1_def by (rule to_double_pos [OF assms(1)])
  have "0 < x1 * 100" using x1 by simp
  then have e2: "\<bar>x2 - x1 * 100\<bar> \<le> x1 * 100 * eps"
    unfolding x2_def eps_def using to_double_error [of "x1 * 100"] by simp
  have "q * eps \<le> 1 * eps"
    using assms eps by (intro mult_right_mono) simp_all
  with e1 have b1: "\<bar>x1 - q\<bar> \<le> eps" by simp
  with assms eps have "x1 \<le> 2" by linarith
  then have "x1 * 100 * eps \<le> 200 * eps"
    using eps by (intro mult_right_mono) simp_all
  with e2 have b2: "\<bar>x2 - x1 * 100\<bar> \<le> 200 * eps" by linarith
  from b1 b2 have "\<bar>x2 - 100 * q\<bar> \<le> 300 * eps" by linarith
  then show ?thesis
    by (simp add: x2_def x1_def eps_def)
qed

lemma floor_near_fraction:
  fixes z :: rat and a d :: int
  assumes d: "0 < d" and near: "\<bar>z - of_int a / of_int d\<bar> < 1 / of_int d"
  shows "of_int \<lfloor>z\<rfloor> \<le> (of_int a / of_int d :: rat)"
    and "(of_int a / of_int d :: rat) - 1 \<le> of_int \<lfloor>z\<rfloor>"
proof -
  define D :: rat where "D = of_int d"
  have D: "0 < D" using d by (simp add: D_def)
  have fl: "of_int \<lfloor>z\<rfloor> \<le> z" "z < of_int \<lfloor>z\<rfloor> + 1" by linarith+
  from near have "z < of_int a / D + 1 / D" and "of_int a / D - 1 / D < z"
    unfolding D_def by linarith+
  then have hi: "z * D < of_int a + 1" and lo: "of_int a - 1 < z * D"
    using D by (simp_all add: field_simps)
  have "of_int \<lfloor>z\<rfloor> * D \<le> z * D"
    using fl(1) D by (intro mult_right_mono) simp_all
  with hi have "(of_int (\<lfloor>z\<rfloor> * d) :: rat) < of_int (a + 1)"
    by (simp add: D_def)
  then have "\<lfloor>z\<rfloor> * d < a + 1" by (simp only: of_int_less_iff)
  then have "\<lfloor>z\<rfloor> * d \<le> a" by simp
  then have "(of_int (\<lfloor>z\<rfloor> * d) :: rat) \<le> of_int a" by (simp only: of_int_le_iff)
  then have "of_int \<lfloor>z\<rfloor> * D \<le> of_int a" by (simp add: D_def)
  then show "of_int \<lfloor>z\<rfloor> \<le> (of_int a / of_int d :: rat)"
    using D by (simp add: pos_le_divide_eq D_def)
  have "z * D < (of_int \<lfloor>z\<rfloor> + 1) * D"
    using fl(2) D by (intro mult_strict_right_mono) simp_all
  with lo have "(of_int (a - 1) :: rat) < of_int ((\<lfloor>z\<rfloor> + 1) * d)"
    by (simp add: D_def)
  then have "a - 1 < (\<lfloor>z\<rfloor> + 1) * d" by (simp only: of_int_less_iff)
  then have "a \<le> (\<lfloor>z\<rfloor> + 1) * d" by simp
  then have "(of_int a :: rat) \<le> of_int ((\<lfloor>z\<rfloor> + 1) * d)" by (simp only: of_int_le_iff)
  then have "of_int a \<le> (of_int \<lfloor>z\<rfloor> + 1) * D" by (simp add: D_def)
  then have "of_int a / D \<le> of_int \<lfloor>z\<rfloor> + 1"
    using D by (simp add: pos_divide_le_eq)
  then show "(of_int a / of_int d :: rat) - 1 \<le> of_int \<lfloor>z\<rfloor>"
    by (simp add: D_def)
qed

lemma completion_rate_nearest:
  fixes c t :: int
  assumes c: "0 \<le> c" "c \<le> t" and t: "0 < t" "t \<le> 1000000000000"
  shows "\<bar>of_int (Math_round (to_double (to_double (of_int c / of_int t) * 100)))
           - 100 * of_int c / of_int t\<bar> \<le> (1 / 2 :: rat)"
proof (cases "c = 0")
  case True
  have "\<lfloor>1 / 2 :: rat\<rfloor> = 0" by (rule floor_unique) simp_all
  with True show ?thesis by (simp add: to_double_def Math_round_def)
next
  case False
  define q :: rat where "q = of_int c / of_int t"
  define x2 where "x2 = to_double (to_double q * 100)"
  have T: "(0::rat) < of_int t" using t by simp
  from False c have "0 < c" by simp
  then have q: "0 < q" "q \<le> 1"
    using c t by (simp_all add: q_def)
  have err: "\<bar>x2 - 100 * q\<bar> \<le> 300 / 2 ^ 53"
    unfolding x2_def by (rule percentage_error [OF q])
  have frac_eq: "(of_int (200 * c + t) / of_int (2 * t) :: rat) = 100 * q + 1 / 2"
    using T by (simp add: q_def field_simps)
  have "(of_int t :: rat) \<le> of_int 1000000000000"
    using t(2) by (simp only: of_int_le_iff)
  then have "(of_int (2 * t) :: rat) \<le> 2000000000000"
    by simp
  then have "(300 / 2 ^ 53 :: rat) * of_int (2 * t) \<le> 300 / 2 ^ 53 * 2000000000000"
    by (intro mult_left_mono) simp_all
  also have "\<dots> < 1" by simp
  finally have "(300 / 2 ^ 53 :: rat) < 1 / of_int (2 * t)"
    using T by (simp add: pos_less_divide_eq)
  with err have near: "\<bar>(x2 + 1 / 2) - of_int (200 * c + t) / of_int (2 * t)\<bar> < 1 / of_int (2 * t)"
    unfolding frac_eq by linarith
  have d: "0 < 2 * t" using t by simp
  from floor_near_fraction [OF d near]
  have "of_int \<lfloor>x2 + 1 / 2\<rfloor> \<le> 100 * q + 1 / 2" "100 * q + 1 / 2 - 1 \<le> of_int \<lfloor>x2 + 1 / 2\<rfloor>"
    unfolding frac_eq by simp_all
  then have "\<bar>of_int (Math_round x2) - 100 * q\<bar> \<le> 1 / 2"
    unfolding Math_round_def by linarith
  then show ?thesis
    by (simp add: x2_def q_def)
qed

lemma nearest_is_round:
  fixes y :: rat
  assumes "\<bar>of_int n - y\<bar> \<le> 1 / 2" and "frac y \<noteq> 1 / 2"
  shows "n = round y"
proof -
  have "of_int n \<noteq> y - 1 / 2"
  proof
    assume "of_int n = y - 1 / 2"
    then have y: "y = of_int n + 1 / 2" by simp
    have "\<lfloor>y\<rfloor> = n" unfolding y by (rule floor_unique) simp_all
    then have "frac y = 1 / 2" by (simp add: frac_def y)
    with assms(2) show False by simp
  qed
  with assms(1) have "of_int n > y - 1 / 2" "of_int n \<le> y + 1 / 2" by linarith+
  then show ?thesis by (simp add: round_unique)
qed

lemma completion_rate_eq:
  "completion_rate (getStatistics db u) =
     (if owned_rows db u = [] then 0
      else Math_round (js_times (js_divide (of_nat (length (completed_rows db u)))
                                           (of_nat (length (owned_rows db u)))) 100))"
  by (simp add: getStatistics_def Let_def sql_sum_case_def int_or_0_def completed_rows_def)

lemma completion_rate_near:
  assumes "owned_rows db u \<noteq> []" and "length (owned_rows db u) \<le> 1000000000000"
  shows "\<bar>of_int (completion_rate (getStatistics db u)) - exact_percentage db u\<bar> \<le> 1 / 2"
proof -
  define c where "c = int (length (completed_rows db u))"
  define t where "t = int (length (owned_rows db u))"
  have "0 \<le> c" "c \<le> t" "0 < t" "t \<le> 1000000000000"
    using assms by (simp_all add: c_def t_def completed_rows_def)
  from completion_rate_nearest [OF this]
  show ?thesis
    using assms(1)
    by (simp add: completion_rate_eq js_times_def js_divide_def exact_percentage_def c_def t_def)
qed

lemma double_rate_23_of_40: "Math_round (js_times (js_divide 23 40) 100) = 57"
  by code_simp

text \<open>
  \<open>getStatistics\<close> returns for every store and owner: the number of the owner's tasks
  as \<open>total_tasks\<close>, and as \<open>completion_rate\<close> 0 when there is none (so 0 and 0 on
  the empty set, with no division by zero) and otherwise \<open>Math.round\<close> of the double
  \<open>(completed / total) * 100\<close>. For up to \<open>10^12\<close> tasks that is an integer within one
  half of \<open>100 * completed / total\<close>, and it is \<open>round (100 * completed / total)\<close>
  whenever this value is not exactly halfway between two integers. For 2 completed tasks
  of 4 it is 50.
\<close>

lemma completion_rate_of_statistics:
  "total_tasks (getStatistics db u) = int (length (owned_rows db u))
   \<and> completion_rate (getStatistics db u) =
        (if owned_rows db u = [] then 0
         else Math_round (js_times (js_divide (of_nat (length (completed_rows db u)))
                                              (of_nat (length (owned_rows db u)))) 100))
   \<and> (owned_rows db u = [] \<longrightarrow>
         total_tasks (getStatistics db u) = 0 \<and> completion_rate (getStatistics db u) = 0)
   \<and> (owned_rows db u \<noteq> [] \<and> length (owned_rows db u) \<le> 1000000000000 \<longrightarrow>
         \<bar>of_int (completion_rate (getStatistics db u)) - exact_percentage db u\<bar> \<le> 1 / 2
         \<and> (frac (exact_percentage db u) \<noteq> 1 / 2 \<longrightarrow>
              completion_rate (getStatistics db u) = round (exact_percentage db u)))
   \<and> (length (owned_rows db u) = 4 \<and> length (completed_rows db u) = 2 \<longrightarrow>
         completion_rate (getStatistics db u) = 50)"
proof (intro conjI impI)
  show "total_tasks (getStatistics db u) = int (length (owned_rows db u))"
    by (simp add: getStatistics_def Let_def)
  show "completion_rate (getStatistics db u) =
        (if owned_rows db u = [] then 0
         else Math_round (js_times (js_divide (of_nat (length (completed_rows db u)))
                                              (of_nat (length (owned_rows db u)))) 100))"
    by (rule completion_rate_eq)
next
  assume "owned_rows db u = []"
  then show "total_tasks (getStatistics db u) = 0" "completion_rate (getStatistics db u) = 0"
    by (simp_all add: getStatistics_def Let_def)
next
  assume a: "owned_rows db u \<noteq> [] \<and> length (owned_rows db u) \<le> 1000000000000"
  then have "owned_rows db u \<noteq> []" "length (owned_rows db u) \<le> 1000000000000"
    by simp_all
  then show near: "\<bar>of_int (completion_rate (getStatistics db u)) - exact_percentage db u\<bar> \<le> 1 / 2"
    by (rule completion_rate_near)
  assume "frac (exact_percentage db u) \<noteq> 1 / 2"
  with near show "completion_rate (getStatistics db u) = round (exact_percentage db u)"
    by (rule nearest_is_round)
next
  assume a: "length (owned_rows db u) = 4 \<and> length (completed_rows db u) = 2"
  then have "owned_rows db u \<noteq> []" by auto
  moreover have "Math_round (js_times (js_divide 2 4) 100) = 50" by code_simp
  ultimately show "completion_rate (getStatistics db u) = 50"
    using a by (simp add: completion_rate_eq)
qed

lemma forty_tasks_rows:
  "owned_rows forty_tasks ''admin-001'' = forty_tasks"
  "filter (\<lambda>row. status row = ''COMPLETED'') forty_tasks
     = map (sample_task ''COMPLETED'') [0..<23]"
  "length forty_tasks = 40"
  by (simp_all add: forty_tasks_def owned_rows_def sample_task_def filter_map comp_def)

lemma forty_tasks_avg_completion:
  "sql_avg completion_percentage forty_tasks = Some (js_divide 2300 40)"
proof -
  have "List.map_filter (\<lambda>row. sql_number (completion_percentage row)) forty_tasks
      = map (\<lambda>k. 100) [0..<23] @ map (\<lambda>k. 0) [23..<40]"
    by (simp add: forty_tasks_def List.map_filter_def sample_task_def sql_number_def
        filter_map comp_def)
  then show ?thesis
    by (simp add: sql_avg_def Let_def sum_list_triv)
qed

text \<open>
  C6. \<open>getStatistics\<close> returns the number of the owner's tasks as \<open>total_tasks\<close> and
  the rounded percentage of completed tasks as \<open>completion_rate\<close>. The code misses it
  for 23 completed tasks of 40, which are 57.5 percent: rounded as \<open>Math.round\<close> rounds
  (a half goes up, as for 1 task of 8, where the rate is 13), that is 58, and 58 is what
  the same call returns as \<open>avg_completion\<close> over the same rows. But the rate is
  computed as \<^verbatim>\<open>Math.round((completed / total) * 100)\<close>: the double \<open>23 / 40\<close> lies
  below \<open>0.575\<close>, its product with 100 is a double below 57.5, and the rate returned is
  57. In the other order, \<^verbatim>\<open>Math.round(100 * completed / total)\<close>, the doubles give 58.
\<close>

theorem completion_rate_23_of_40:
  "total_tasks (getStatistics forty_tasks ''admin-001'') = 40
   \<and> completed_tasks (getStatistics forty_tasks ''admin-001'') = 23
   \<and> completion_rate (getStatistics forty_tasks ''admin-001'') = 57
   \<and> round (100 * 23 / 40 :: rat) = 58
   \<and> exact_percentage forty_tasks ''admin-001'' = 115 / 2
   \<and> Math_round (exact_percentage forty_tasks ''admin-001'') = 58
   \<and> avg_completion (getStatistics forty_tasks ''admin-001'') = 58
   \<and> Math_round (js_divide (js_times 100 23) 40) = 58
   \<and> Math_round (js_times (js_divide 1 8) 100) = 13"
proof -
  note rows = forty_tasks_rows
  have r: "round (100 * 23 / 40 :: rat) = 58"
    by (simp add: round_def)
  have t: "total_tasks (getStatistics forty_tasks ''admin-001'') = 40"
    by (simp add: getStatistics_def Let_def rows)
  have k: "completed_tasks (getStatistics forty_tasks ''admin-001'') = 23"
    by (simp add: getStatistics_def Let_def rows sql_sum_case_def int_or_0_def)
       (simp add: forty_tasks_def)
  have "completion_rate (getStatistics forty_tasks ''admin-001'')
      = Math_round (js_times (js_divide 23 40) 100)"
    by (simp add: getStatistics_def Let_def rows sql_sum_case_def int_or_0_def)
       (simp add: forty_tasks_def)
  with double_rate_23_of_40 have c: "completion_rate (getStatistics forty_tasks ''admin-001'') = 57"
    by (simp only:)
  have e: "exact_percentage forty_tasks ''admin-001'' = 115 / 2"
    by (simp add: exact_percentage_def completed_rows_def rows)
  have "Math_round (115 / 2) = 58"
    by code_simp
  then have m: "Math_round (exact_percentage forty_tasks ''admin-001'') = 58"
    by (simp only: e)
  have "Math_round (js_divide 2300 40) = 58"
    by code_simp
  then have a: "avg_completion (getStatistics forty_tasks ''admin-001'') = 58"
    by (simp add: getStatistics_def Let_def rows forty_tasks_avg_completion rat_or_0_def)
  have s: "Math_round (js_divide (js_times 100 23) 40) = 58"
    by code_simp
  have h: "Math_round (js_times (js_divide 1 8) 100) = 13"
    by code_simp
  from t k c r e m a s h show ?thesis by (intro conjI)
qed

end
